theory Spec2Isabelle
  imports Main "HOL-Library.Sublist"
begin

section \<open>JavaScript values, exceptions and outcomes\<close>

text \<open>
  The agent (class \<open>LLMAgent\<close>) handles values that come out of \<open>JSON.parse\<close> and go
  into \<open>JSON.stringify\<close>. They are modelled by the JSON values, with \<open>undefined\<close>
  added for a property that is absent.
\<close>

datatype json =
    JUndefined
  | JNull
  | JBool bool
  | JNum int
  | JStr string
  | JArr "json list"
  | JObj "(string \<times> json) list"

text \<open>JavaScript truthiness, as used by \<open>if (data.items)\<close> and \<open>return_value ? \<dots>\<close>.\<close>

fun truthy :: "json \<Rightarrow> bool" where
  "truthy JUndefined = False"
| "truthy JNull = False"
| "truthy (JBool b) = b"
| "truthy (JNum n) = (n \<noteq> 0)"
| "truthy (JStr s) = (s \<noteq> [])"
| "truthy (JArr xs) = True"
| "truthy (JObj kvs) = True"

text \<open>Reading a property \<open>v.k\<close> of a value that is neither \<open>null\<close> nor \<open>undefined\<close>.\<close>

fun property :: "json \<Rightarrow> string \<Rightarrow> json" where
  "property (JObj kvs) k = (case map_of kvs k of Some v \<Rightarrow> v | None \<Rightarrow> JUndefined)"
| "property v k = JUndefined"

text \<open>A destructured parameter with a default: the default replaces \<open>undefined\<close> only.\<close>

definition with_default :: "json \<Rightarrow> json \<Rightarrow> json" where
  "with_default v d = (if v = JUndefined then d else v)"

text \<open>A thrown value: an exception object with its \<open>name\<close> and its \<open>message\<close>.\<close>

datatype js_error = JsError (err_name: string) (err_message: string)

definition Error :: "string \<Rightarrow> js_error" where
  "Error m = JsError ''Error'' m"

definition TypeError :: "string \<Rightarrow> js_error" where
  "TypeError m = JsError ''TypeError'' m"

definition AbortError :: js_error where
  "AbortError = JsError ''AbortError'' ''signal is aborted without reason''"

text \<open>
  What a code snippet throws: JavaScript lets \<open>throw\<close> take any value, an exception
  object or not.
\<close>

datatype thrown = ThrownError js_error | ThrownValue json

text \<open>
  What a call of an \<open>async\<close> method has done when it is observed: it returned, it threw,
  or it is still suspended at an \<open>await\<close> (\<open>Pending\<close>: the observation ran out of fuel).
\<close>

datatype 'a outcome = Returned 'a | Threw js_error | Pending

section \<open>The agent's state and the user's controls\<close>

text \<open>
  The fields of \<open>LLMAgent\<close> that the turn loop reads or writes. \<open>abortController\<close> is
  \<open>None\<close> for \<open>null\<close> and \<open>Some b\<close> for a controller whose \<open>signal.aborted\<close> is \<open>b\<close>.
  \<open>ui\<close> is the message list of the page, one entry per \<open>addMessage(type, content)\<close>.
  \<open>clock\<close> counts the suspensions on a timer or on the network so far, and
  \<open>llmCalls\<close> the completion requests that \<open>callLLM\<close> has handed to \<open>fetch\<close>; both are
  bookkeeping of the model, the source has no such fields.
\<close>

record agent =
  isProcessing :: bool
  isPaused :: bool
  abortController :: "bool option"
  currentProvider :: string
  apiKey :: string
  ui :: "(string \<times> string) list"
  clock :: nat
  llmCalls :: nat

definition addMessage :: "string \<Rightarrow> string \<Rightarrow> agent \<Rightarrow> agent" where
  "addMessage type content s = s\<lparr>ui := ui s @ [(type, content)]\<rparr>"

text \<open>
  The three controls of the page. The notices they display start with an emoji in the
  source, which is left out here.
\<close>

definition togglePause :: "agent \<Rightarrow> agent" where
  "togglePause s =
     (if \<not> isProcessing s then s
      else if isPaused s then addMessage ''agent'' ''**Resuming processing...**'' (s\<lparr>isPaused := False\<rparr>)
      else s\<lparr>isPaused := True\<rparr>)"

definition resumeProcessing :: "agent \<Rightarrow> agent" where
  "resumeProcessing s = addMessage ''agent'' ''**Processing resumed...**'' (s\<lparr>isPaused := False\<rparr>)"

definition cancelProcessing :: "agent \<Rightarrow> agent" where
  "cancelProcessing s =
     addMessage ''agent'' ''**Processing cancelled by user.**''
       (case abortController s of
          None \<Rightarrow> s
        | Some b \<Rightarrow> s\<lparr>abortController := Some True\<rparr>)"

datatype ui_event = TogglePause | ResumeProcessing | CancelProcessing

fun handle_event :: "ui_event \<Rightarrow> agent \<Rightarrow> agent" where
  "handle_event TogglePause s = togglePause s"
| "handle_event ResumeProcessing s = resumeProcessing s"
| "handle_event CancelProcessing s = cancelProcessing s"

section \<open>The environment\<close>

text \<open>
  Everything the agent awaits comes from the environment: the clicks of the user, the
  remote endpoints, and the JavaScript engine that runs \<open>new Function\<close>, \<open>JSON.parse\<close>
  and \<open>JSON.stringify\<close>.
\<close>

record tool_call =
  tc_id :: string
  fn_name :: string
  fn_arguments :: string

datatype role = System | User | Assistant | Tool

record message =
  role :: role
  content :: string
  tool_calls :: "tool_call list option"
  tool_call_id :: "string option"

text \<open>
  An HTTP response: its status line and its body as \<open>response.json()\<close> reads it
  (\<open>Inl e\<close> when the body is not JSON and \<open>json()\<close> rejects with \<open>e\<close>). A request
  that gets no response at all is a \<open>NetworkFailure\<close>.
\<close>

record 'b response =
  status :: nat
  statusText :: string
  body :: "js_error + 'b"

datatype 'b fetched = NetworkFailure | Response "'b response"

text \<open>\<open>response.ok\<close> is true for the statuses 200 to 299.\<close>

definition ok :: "'b response \<Rightarrow> bool" where
  "ok r = (200 \<le> status r \<and> status r \<le> 299)"

text \<open>
  The body of a chat completion, \<open>{choices: [{message: {content, tool_calls}}]}\<close>, with
  every part that may be missing an option.
\<close>

record chat_message =
  msg_content :: "string option"
  msg_tool_calls :: "tool_call list option"

record completion =
  choices :: "chat_message option list option"

text \<open>The body of a search response, \<open>{items: [{title, link, snippet}]}\<close>.\<close>

record search_item =
  title :: json
  link :: json
  snippet :: json

record search_data =
  items :: "search_item list option"

text \<open>
  A run of a code snippet by the engine: the calls it made on the \<open>console\<close> object it
  was given, in order, and then the value it returned or what it threw (a snippet that
  does not compile throws a \<open>SyntaxError\<close> before any call).

  \<open>JSON.stringify\<close> runs code of the value it serialises (a \<open>toJSON\<close> method, a
  getter) and throws on a \<open>BigInt\<close> or a cycle, so what a call of it gives belongs to
  the environment, and two calls on one value need not agree. The agent calls it in two
  forms: \<open>JSON.stringify(result, null, 2)\<close> when it shows a result
  (\<open>JSON_stringify_pretty\<close>) and \<open>JSON.stringify(result.result)\<close> when it appends a
  tool message (\<open>JSON_stringify\<close>). What either throws is taken to be an exception
  object.
\<close>

datatype console_call =
    ConsoleLog "string list"
  | ConsoleError "string list"
  | ConsoleWarn "string list"

record world =
  timeline :: "nat \<Rightarrow> ui_event list"
  llm_api :: "message list \<Rightarrow> completion fetched"
  search_api :: "json \<Rightarrow> json \<Rightarrow> search_data fetched"
  workflow_api :: "json \<Rightarrow> json \<Rightarrow> json \<Rightarrow> completion fetched"
  js_engine :: "json \<Rightarrow> console_call list \<times> (thrown + json)"
  JSON_parse :: "string \<Rightarrow> js_error + json"
  JSON_stringify :: "json \<Rightarrow> js_error + string"
  JSON_stringify_pretty :: "json \<Rightarrow> js_error + string"

text \<open>
  A suspension on a timer or on the network: the handlers of the clicks that arrive
  during it run, in order, before the agent goes on. \<open>timeline w t\<close> is what the user
  clicks during suspension number \<open>t\<close>.
\<close>

definition await_tick :: "world \<Rightarrow> agent \<Rightarrow> agent" where
  "await_tick w s = (fold handle_event (timeline w (clock s)) s)\<lparr>clock := Suc (clock s)\<rparr>"

definition signal_aborted :: "agent \<Rightarrow> bool" where
  "signal_aborted s = (abortController s = Some True)"

section \<open>The checkpoint\<close>

text \<open>
  \<open>checkPauseState\<close>: the polling loop \<open>while (this.isPaused && this.isProcessing)\<close>
  sleeps 100 ms per round; \<open>fuel\<close> bounds the rounds that are observed.
\<close>

fun wait_while_paused :: "nat \<Rightarrow> world \<Rightarrow> agent \<Rightarrow> unit outcome \<times> agent" where
  "wait_while_paused 0 w s =
     (if isPaused s \<and> isProcessing s then (Pending, s) else (Returned (), s))"
| "wait_while_paused (Suc fuel) w s =
     (if isPaused s \<and> isProcessing s then wait_while_paused fuel w (await_tick w s)
      else (Returned (), s))"

definition checkPauseState :: "nat \<Rightarrow> world \<Rightarrow> agent \<Rightarrow> unit outcome \<times> agent" where
  "checkPauseState fuel w s =
     (case (if isPaused s then wait_while_paused fuel w s else (Returned (), s)) of
        (Returned u, s') \<Rightarrow>
          if signal_aborted s' then (Threw (Error ''Request was cancelled''), s')
          else (Returned (), s')
      | (Threw e, s') \<Rightarrow> (Threw e, s')
      | (Pending, s') \<Rightarrow> (Pending, s'))"

section \<open>Strings\<close>

text \<open>\<open>Array.prototype.join\<close> on strings, and the decimal digits of a status code.\<close>

fun join :: "string \<Rightarrow> string list \<Rightarrow> string" where
  "join sep [] = []"
| "join sep [x] = x"
| "join sep (x # y # ys) = x @ sep @ join sep (y # ys)"

fun show_nat :: "nat \<Rightarrow> string" where
  "show_nat n =
     (if n < 10 then [''0123456789'' ! n]
      else show_nat (n div 10) @ [''0123456789'' ! (n mod 10)])"

declare show_nat.simps [simp del]

text \<open>
  A string of the program is modelled by its UTF-8 bytes. \<open>white_space\<close> lists the
  characters that \<open>String.prototype.trim\<close> strips, each by its bytes: tab, line feed,
  vertical tab, form feed, carriage return, space, U+00A0, U+1680, U+2000 to U+200A,
  U+2028, U+2029, U+202F, U+205F, U+3000 and U+FEFF.
\<close>

definition white_space :: "string list" where
  "white_space =
     [[CHR 0x09], [CHR 0x0A], [CHR 0x0B], [CHR 0x0C], [CHR 0x0D], [CHR 0x20],
      [CHR 0xC2, CHR 0xA0],
      [CHR 0xE1, CHR 0x9A, CHR 0x80],
      [CHR 0xE2, CHR 0x80, CHR 0x80], [CHR 0xE2, CHR 0x80, CHR 0x81],
      [CHR 0xE2, CHR 0x80, CHR 0x82], [CHR 0xE2, CHR 0x80, CHR 0x83],
      [CHR 0xE2, CHR 0x80, CHR 0x84], [CHR 0xE2, CHR 0x80, CHR 0x85],
      [CHR 0xE2, CHR 0x80, CHR 0x86], [CHR 0xE2, CHR 0x80, CHR 0x87],
      [CHR 0xE2, CHR 0x80, CHR 0x88], [CHR 0xE2, CHR 0x80, CHR 0x89],
      [CHR 0xE2, CHR 0x80, CHR 0x8A],
      [CHR 0xE2, CHR 0x80, CHR 0xA8], [CHR 0xE2, CHR 0x80, CHR 0xA9],
      [CHR 0xE2, CHR 0x80, CHR 0xAF],
      [CHR 0xE2, CHR 0x81, CHR 0x9F],
      [CHR 0xE3, CHR 0x80, CHR 0x80],
      [CHR 0xEF, CHR 0xBB, CHR 0xBF]]"

text \<open>\<open>strip ps s\<close> removes from the front of \<open>s\<close> every leading occurrence of one of \<open>ps\<close>.\<close>

function strip :: "string list \<Rightarrow> string \<Rightarrow> string" where
  "strip ps s =
     (case find (\<lambda>p. p \<noteq> [] \<and> prefix p s) ps of
        None \<Rightarrow> s
      | Some p \<Rightarrow> strip ps (drop (length p) s))"
  by pat_completeness auto
termination
proof (relation "measure (\<lambda>(ps, s). length s)")
  show "wf (measure (\<lambda>(ps, s). length s))" by simp
next
  fix ps :: "string list" and s p :: string
  assume "find (\<lambda>p. p \<noteq> [] \<and> prefix p s) ps = Some p"
  then have "p \<noteq> []" and "prefix p s"
    by (auto simp: find_Some_iff)
  then have "0 < length p" and "length p \<le> length s"
    by (auto simp: prefix_def)
  then have "length s - length p < length s"
    by arith
  then show "((ps, drop (length p) s), (ps, s)) \<in> measure (\<lambda>(ps, s). length s)"
    by simp
qed

declare strip.simps [simp del]

text \<open>\<open>String.prototype.trim\<close>: white space is stripped from the front and from the end.\<close>

definition trim :: "string \<Rightarrow> string" where
  "trim s = rev (strip (map rev white_space) (rev (strip white_space s)))"

section \<open>The remote model\<close>

text \<open>
  \<open>fetch(url, {signal, \<dots>})\<close> with the signal of the agent's abort controller. A signal
  that is already aborted rejects the call at once; otherwise the agent is suspended
  until the reply is there, and an abort during the suspension rejects the call with an
  \<open>AbortError\<close>. \<open>reply\<close> is what the endpoint answers to this request.
\<close>

definition fetch :: "world \<Rightarrow> 'b fetched \<Rightarrow> agent \<Rightarrow> (js_error + 'b response) \<times> agent" where
  "fetch w reply s =
     (if signal_aborted s then (Inl AbortError, s)
      else
        let s' = await_tick w s in
        if signal_aborted s' then (Inl AbortError, s')
        else
          (case reply of
             NetworkFailure \<Rightarrow> (Inl (TypeError ''Failed to fetch''), s')
           | Response r \<Rightarrow> (Inr r, s')))"

definition getHeaders :: "agent \<Rightarrow> js_error + (string \<times> string) list" where
  "getHeaders s =
     (if apiKey s \<noteq> [] then
        Inr [(''Content-Type'', ''application/json''), (''Authorization'', ''Bearer '' @ apiKey s)]
      else if currentProvider s = ''openai'' then Inl (Error ''API key required for OpenAI'')
      else Inr [(''Content-Type'', ''application/json'')])"

text \<open>
  \<open>data.choices[0].message\<close>: each step throws a \<open>TypeError\<close> when the value it reads
  from is \<open>undefined\<close>.
\<close>

definition first_message :: "completion \<Rightarrow> js_error + chat_message" where
  "first_message data =
     (case choices data of
        None \<Rightarrow> Inl (TypeError ''Cannot read properties of undefined (reading '0')'')
      | Some [] \<Rightarrow> Inl (TypeError ''Cannot read properties of undefined (reading 'message')'')
      | Some (None # cs) \<Rightarrow> Inl (TypeError ''Cannot read properties of undefined (reading 'content')'')
      | Some (Some m # cs) \<Rightarrow> Inr m)"

text \<open>
  \<open>callLLM\<close>. The reply of the endpoint depends on the messages of the request; the
  model, the tool catalogue and the sampling parameters of the request are constants.
  Reading the body (\<open>await response.json()\<close>) is part of the same suspension as the
  request.
\<close>

definition callLLM ::
  "world \<Rightarrow> message list \<Rightarrow> agent \<Rightarrow> (js_error + string \<times> tool_call list) \<times> agent" where
  "callLLM w messages s =
     (case getHeaders s of
        Inl e \<Rightarrow> (Inl e, s)
      | Inr headers \<Rightarrow>
          (case fetch w (llm_api w messages) (s\<lparr>llmCalls := Suc (llmCalls s)\<rparr>) of
             (Inl e, s') \<Rightarrow> (Inl e, s')
           | (Inr response, s') \<Rightarrow>
               if \<not> ok response then
                 (Inl (Error (''LLM API error: '' @ show_nat (status response) @ '' ''
                                @ statusText response)), s')
               else
                 (case body response of
                    Inl e \<Rightarrow> (Inl e, s')
                  | Inr data \<Rightarrow>
                      (case first_message data of
                         Inl e \<Rightarrow> (Inl e, s')
                       | Inr m \<Rightarrow>
                           (Inr (case msg_content m of None \<Rightarrow> [] | Some c \<Rightarrow> c,
                                 case msg_tool_calls m of None \<Rightarrow> [] | Some tcs \<Rightarrow> tcs),
                            s')))))"

section \<open>The tools\<close>

text \<open>
  Each tool takes the parsed arguments of the call as its one parameter and destructures
  it, which throws a \<open>TypeError\<close> when the arguments are \<open>null\<close>.
\<close>

definition destructure :: "json \<Rightarrow> string \<Rightarrow> js_error + json" where
  "destructure params k =
     (if params = JNull \<or> params = JUndefined then
        Inl (TypeError (''Cannot destructure property '' @ k @ '' as it is null.''))
      else Inr params)"

definition googleSearch :: "world \<Rightarrow> json \<Rightarrow> agent \<Rightarrow> (js_error + json) \<times> agent" where
  "googleSearch w params s =
     (case destructure params ''query'' of
        Inl e \<Rightarrow> (Inl e, s)
      | Inr p \<Rightarrow>
          let query = property p ''query'';
              num_results = with_default (property p ''num_results'') (JNum 5)
          in
            (case fetch w (search_api w query num_results) s of
               (Inl error, s') \<Rightarrow> (Inl (Error (''Search failed: '' @ err_message error)), s')
             | (Inr response, s') \<Rightarrow>
                 (case body response of
                    Inl error \<Rightarrow> (Inl (Error (''Search failed: '' @ err_message error)), s')
                  | Inr data \<Rightarrow>
                      (case items data of
                         Some its \<Rightarrow>
                           (Inr (JObj [(''query'', query),
                                       (''results'',
                                        JArr (map (\<lambda>item. JObj [(''title'', title item),
                                                                 (''link'', link item),
                                                                 (''snippet'', snippet item)]) its))]),
                            s')
                       | None \<Rightarrow>
                           (Inr (JObj [(''query'', query),
                                       (''results'', JArr []),
                                       (''message'', JStr ''No results found'')]),
                            s')))))"

definition systemPrompt :: "json \<Rightarrow> json" where
  "systemPrompt workflow_type =
     (if workflow_type = JStr ''analysis'' then
        JStr ''You are an expert analyst. Analyze the provided data thoroughly and provide insights.''
      else if workflow_type = JStr ''summarization'' then
        JStr ''You are an expert summarizer. Create a comprehensive summary of the provided content.''
      else if workflow_type = JStr ''generation'' then
        JStr ''You are a creative content generator. Generate high-quality content based on the input.''
      else if workflow_type = JStr ''classification'' then
        JStr ''You are an expert classifier. Classify and categorize the provided data.''
      else JUndefined)"

definition aiPipeWorkflow :: "world \<Rightarrow> json \<Rightarrow> agent \<Rightarrow> (js_error + json) \<times> agent" where
  "aiPipeWorkflow w params s =
     (case destructure params ''workflow_type'' of
        Inl e \<Rightarrow> (Inl e, s)
      | Inr p \<Rightarrow>
          let workflow_type = property p ''workflow_type'';
              input_data = property p ''input_data'';
              instructions = with_default (property p ''instructions'') (JStr [])
          in
            (case fetch w (workflow_api w (systemPrompt workflow_type) instructions input_data) s of
               (Inl e, s') \<Rightarrow> (Inl e, s')
             | (Inr response, s') \<Rightarrow>
                 if \<not> ok response then
                   (Inl (Error (''AI Pipe workflow failed: '' @ show_nat (status response))), s')
                 else
                   (case body response of
                      Inl e \<Rightarrow> (Inl e, s')
                    | Inr data \<Rightarrow>
                        (case first_message data of
                           Inl e \<Rightarrow> (Inl e, s')
                         | Inr m \<Rightarrow>
                             (Inr (JObj [(''workflow_type'', workflow_type),
                                         (''result'',
                                          case msg_content m of
                                            None \<Rightarrow> JUndefined
                                          | Some c \<Rightarrow> JStr c)]),
                              s')))))"

text \<open>
  \<open>executeJavaScript\<close>: the mock console turns each call into one line of \<open>logs\<close>.
  Its \<open>catch\<close> reads \<open>error.message\<close> of whatever was thrown: the message of an
  exception object, the property \<open>message\<close> of another value (\<open>undefined\<close> for a
  string or a number), and a \<open>TypeError\<close> of its own when \<open>null\<close> or \<open>undefined\<close>
  was thrown.
\<close>

definition message_of :: "thrown \<Rightarrow> js_error + json" where
  "message_of error =
     (case error of
        ThrownError e \<Rightarrow> Inr (JStr (err_message e))
      | ThrownValue v \<Rightarrow>
          if v = JNull then
            Inl (TypeError ''Cannot read properties of null (reading 'message')'')
          else if v = JUndefined then
            Inl (TypeError ''Cannot read properties of undefined (reading 'message')'')
          else Inr (property v ''message''))"

fun log_line :: "console_call \<Rightarrow> string" where
  "log_line (ConsoleLog args) = join '' '' args"
| "log_line (ConsoleError args) = ''ERROR: '' @ join '' '' args"
| "log_line (ConsoleWarn args) = ''WARN: '' @ join '' '' args"

definition executeJavaScript :: "world \<Rightarrow> json \<Rightarrow> js_error + json" where
  "executeJavaScript w params =
     (case destructure params ''code'' of
        Inl e \<Rightarrow> Inl e
      | Inr p \<Rightarrow>
          let code = property p ''code'';
              return_value = with_default (property p ''return_value'') (JBool True)
          in
            (case js_engine w code of
               (calls, Inr result) \<Rightarrow>
                 Inr (JObj [(''code'', code),
                            (''result'', if truthy return_value then result else JNull),
                            (''console_output'', JArr (map (\<lambda>c. JStr (log_line c)) calls)),
                            (''success'', JBool True)])
             | (calls, Inl error) \<Rightarrow>
                 (case message_of error of
                    Inl e \<Rightarrow> Inl e
                  | Inr message \<Rightarrow>
                      Inr (JObj [(''code'', code),
                                 (''error'', message),
                                 (''success'', JBool False)]))))"

definition executeTool :: "world \<Rightarrow> tool_call \<Rightarrow> agent \<Rightarrow> (js_error + json) \<times> agent" where
  "executeTool w toolCall s =
     (case JSON_parse w (fn_arguments toolCall) of
        Inl e \<Rightarrow> (Inl e, s)
      | Inr params \<Rightarrow>
          if fn_name toolCall = ''google_search'' then googleSearch w params s
          else if fn_name toolCall = ''ai_pipe_workflow'' then aiPipeWorkflow w params s
          else if fn_name toolCall = ''execute_javascript'' then (executeJavaScript w params, s)
          else (Inl (Error (''Unknown tool: '' @ fn_name toolCall)), s))"

section \<open>Dispatching the tool calls\<close>

text \<open>
  \<open>addToolCallsUI\<close> renders the calls before any of them runs; it parses the arguments
  of each call to display them, and throws what \<open>JSON.parse\<close> throws. Of the
  rendering the model keeps what can throw.
\<close>

fun addToolCallsUI :: "world \<Rightarrow> tool_call list \<Rightarrow> js_error + unit" where
  "addToolCallsUI w [] = Inr ()"
| "addToolCallsUI w (toolCall # rest) =
     (case JSON_parse w (fn_arguments toolCall) of
        Inl e \<Rightarrow> Inl e
      | Inr params \<Rightarrow> addToolCallsUI w rest)"

record tool_result =
  tr_tool_call_id :: string
  tr_result :: json

text \<open>
  \<open>updateToolCallResult\<close> shows a result in the element that \<open>addToolCallsUI\<close> made
  for the call. Of it the model keeps what can throw: \<open>JSON.stringify(result, null, 2)\<close>.
\<close>

definition updateToolCallResult :: "world \<Rightarrow> string \<Rightarrow> json \<Rightarrow> js_error + unit" where
  "updateToolCallResult w toolCallId result =
     (case JSON_stringify_pretty w result of
        Inl e \<Rightarrow> Inl e
      | Inr shown \<Rightarrow> Inr ())"

text \<open>
  The \<open>catch\<close> block of the loop of \<open>handleToolCalls\<close>: it adds an \<open>{error}\<close> result
  for the call and shows it; what showing it throws leaves \<open>handleToolCalls\<close>.
\<close>

definition catch_tool_error ::
  "world \<Rightarrow> tool_call \<Rightarrow> tool_result list \<Rightarrow> js_error \<Rightarrow> js_error + tool_result list" where
  "catch_tool_error w toolCall results error =
     (let errorResult = JObj [(''error'', JStr (err_message error))];
          results' = results @ [\<lparr>tr_tool_call_id = tc_id toolCall, tr_result = errorResult\<rparr>]
      in case updateToolCallResult w (tc_id toolCall) errorResult of
           Inl e \<Rightarrow> Inl e
         | Inr u \<Rightarrow> Inr results')"

text \<open>
  The \<open>try\<close> block with its \<open>catch\<close>: the tool runs, its result is added to
  \<open>results\<close>, and then it is shown. The \<open>catch\<close> takes what the tool throws and also
  what showing the result throws, when the result is already in \<open>results\<close>.
\<close>

definition try_tool ::
  "world \<Rightarrow> tool_call \<Rightarrow> tool_result list \<Rightarrow> agent \<Rightarrow> (js_error + tool_result list) \<times> agent" where
  "try_tool w toolCall results s =
     (case executeTool w toolCall s of
        (Inl error, s') \<Rightarrow> (catch_tool_error w toolCall results error, s')
      | (Inr result, s') \<Rightarrow>
          let results' = results @ [\<lparr>tr_tool_call_id = tc_id toolCall, tr_result = result\<rparr>]
          in case updateToolCallResult w (tc_id toolCall) result of
               Inl error \<Rightarrow> (catch_tool_error w toolCall results' error, s')
             | Inr u \<Rightarrow> (Inr results', s'))"

text \<open>The \<open>for\<close> loop of \<open>handleToolCalls\<close>, with the \<open>results\<close> collected so far.\<close>

fun tool_loop ::
  "nat \<Rightarrow> world \<Rightarrow> tool_call list \<Rightarrow> tool_result list \<Rightarrow> agent \<Rightarrow> tool_result list outcome \<times> agent" where
  "tool_loop fuel w [] results s = (Returned results, s)"
| "tool_loop fuel w (toolCall # rest) results s =
     (case checkPauseState fuel w s of
        (Threw e, s1) \<Rightarrow> (Threw e, s1)
      | (Pending, s1) \<Rightarrow> (Pending, s1)
      | (Returned u, s1) \<Rightarrow>
          (case try_tool w toolCall results s1 of
             (Inl e, s2) \<Rightarrow> (Threw e, s2)
           | (Inr results', s2) \<Rightarrow> tool_loop fuel w rest results' s2))"

definition handleToolCalls ::
  "nat \<Rightarrow> world \<Rightarrow> tool_call list \<Rightarrow> agent \<Rightarrow> tool_result list outcome \<times> agent" where
  "handleToolCalls fuel w toolCalls s =
     (case addToolCallsUI w toolCalls of
        Inl e \<Rightarrow> (Threw e, s)
      | Inr u \<Rightarrow> tool_loop fuel w toolCalls [] s)"

section \<open>The turn loop\<close>

definition SYSTEM_PROMPT :: string where
  "SYSTEM_PROMPT = join [CHR 0x0A]
     [''You are an advanced LLM agent with multi-tool reasoning capabilities. Your goal is to help users by:'',
      '''',
      ''1. **Understanding the user's request** completely'',
      ''2. **Planning the approach** - decide which tools to use and in what order'',
      ''3. **Executing tool calls** as needed to gather information or perform tasks'',
      ''4. **Synthesizing results** into a comprehensive response'',
      '''',
      ''## Core Agent Loop Logic:'',
      ''- Take user input'',
      ''- Analyze what tools are needed'',
      ''- Execute tool calls to gather data/perform tasks'',
      ''- Continue with additional tools if needed'',
      ''- Provide final synthesized answer'',
      '''',
      ''## Available Tools:'',
      ''1. **google_search**: Search the web for current information'',
      ''2. **ai_pipe_workflow**: Execute AI workflows for complex processing'',
      ''3. **execute_javascript**: Run JavaScript code for calculations/demonstrations'',
      '''',
      ''## Guidelines:'',
      ''- Use tools strategically to provide comprehensive answers'',
      ''- Execute code to demonstrate concepts when helpful'',
      ''- Search for current information when needed'',
      ''- Combine multiple tools for complex tasks'',
      ''- Always explain your reasoning process'',
      ''- Be thorough but concise in responses'',
      '''',
      ''## Tool Usage Examples:'',
      ''- For current events: Use google_search'',
      ''- For calculations/demos: Use execute_javascript  '',
      ''- For analysis tasks: Use ai_pipe_workflow'',
      ''- For complex research: Combine multiple tools'',
      '''',
      ''Remember: You can use multiple tools in sequence. Always think through what information you need and use the appropriate tools to gather it.'']"

definition initial_messages :: "string \<Rightarrow> message list" where
  "initial_messages userInput =
     [\<lparr>role = System, content = SYSTEM_PROMPT, tool_calls = None, tool_call_id = None\<rparr>,
      \<lparr>role = User, content = userInput, tool_calls = None, tool_call_id = None\<rparr>]"

definition assistant_message :: "string \<Rightarrow> tool_call list \<Rightarrow> message" where
  "assistant_message output toolCalls =
     \<lparr>role = Assistant, content = output, tool_calls = Some toolCalls, tool_call_id = None\<rparr>"

definition tool_message :: "string \<Rightarrow> string \<Rightarrow> message" where
  "tool_message text toolCallId =
     \<lparr>role = Tool, content = text, tool_calls = None, tool_call_id = Some toolCallId\<rparr>"

text \<open>
  \<open>toolResults.forEach\<close>: one tool message per result is appended to the conversation.
  When \<open>JSON.stringify\<close> throws, the messages appended so far stay.
\<close>

fun push_tool_results ::
  "world \<Rightarrow> tool_result list \<Rightarrow> message list \<Rightarrow> js_error option \<times> message list" where
  "push_tool_results w [] messages = (None, messages)"
| "push_tool_results w (result # rest) messages =
     (case JSON_stringify w (tr_result result) of
        Inl e \<Rightarrow> (Some e, messages)
      | Inr text \<Rightarrow>
          push_tool_results w rest (messages @ [tool_message text (tr_tool_call_id result)]))"

text \<open>
  One pass through the body of \<open>while (true)\<close> in \<open>agentLoop\<close>: it ends the loop
  (\<open>Finished\<close>) or goes round again (\<open>Continue\<close>); with it comes the conversation (the
  local \<open>messages\<close>) as the pass leaves it.
\<close>

datatype iteration = Continue | Finished "unit outcome"

definition agentLoop_iteration ::
  "nat \<Rightarrow> world \<Rightarrow> message list \<Rightarrow> agent \<Rightarrow> iteration \<times> message list \<times> agent" where
  "agentLoop_iteration fuel w messages s =
     (case checkPauseState fuel w s of
        (Threw e, s1) \<Rightarrow> (Finished (Threw e), messages, s1)
      | (Pending, s1) \<Rightarrow> (Finished Pending, messages, s1)
      | (Returned u1, s1) \<Rightarrow>
     (case callLLM w messages s1 of
        (Inl e, s2) \<Rightarrow> (Finished (Threw e), messages, s2)
      | (Inr (output, toolCalls), s2) \<Rightarrow>
     (case checkPauseState fuel w s2 of
        (Threw e, s3) \<Rightarrow> (Finished (Threw e), messages, s3)
      | (Pending, s3) \<Rightarrow> (Finished Pending, messages, s3)
      | (Returned u2, s3) \<Rightarrow>
          let s4 = (if trim output \<noteq> [] then addMessage ''agent'' output s3 else s3) in
          if toolCalls = [] then (Finished (Returned ()), messages, s4)
          else
     (case checkPauseState fuel w s4 of
        (Threw e, s5) \<Rightarrow> (Finished (Threw e), messages, s5)
      | (Pending, s5) \<Rightarrow> (Finished Pending, messages, s5)
      | (Returned u3, s5) \<Rightarrow>
     (case handleToolCalls fuel w toolCalls s5 of
        (Threw e, s6) \<Rightarrow> (Finished (Threw e), messages, s6)
      | (Pending, s6) \<Rightarrow> (Finished Pending, messages, s6)
      | (Returned toolResults, s6) \<Rightarrow>
          (case push_tool_results w toolResults
                  (messages @ [assistant_message output toolCalls]) of
             (Some e, messages') \<Rightarrow> (Finished (Threw e), messages', s6)
           | (None, messages') \<Rightarrow> (Continue, messages', s6)))))))"

text \<open>
  \<open>agentLoop\<close>, observed for \<open>fuel\<close> passes, with \<open>fuel\<close> polling rounds at each
  checkpoint. The result carries the conversation as it stands when the loop returns,
  throws or is left running.
\<close>

fun agentLoop ::
  "nat \<Rightarrow> world \<Rightarrow> message list \<Rightarrow> agent \<Rightarrow> unit outcome \<times> message list \<times> agent" where
  "agentLoop 0 w messages s = (Pending, messages, s)"
| "agentLoop (Suc fuel) w messages s =
     (case agentLoop_iteration (Suc fuel) w messages s of
        (Finished r, messages', s') \<Rightarrow> (r, messages', s')
      | (Continue, messages', s') \<Rightarrow> agentLoop fuel w messages' s')"

definition conversation :: "unit outcome \<times> message list \<times> agent \<Rightarrow> message list" where
  "conversation r = fst (snd r)"

text \<open>
  \<open>sendMessage\<close>: the turn. \<open>input\<close> is the text of the input box.
  \<open>catch_finally\<close> is its \<open>catch\<close> block followed by its \<open>finally\<close> block: the
  first shows the error, the second resets the flags. Neither runs while the loop is
  pending.
\<close>

definition catch_finally :: "unit outcome \<Rightarrow> agent \<Rightarrow> agent" where
  "catch_finally r s =
     (case r of
        Threw error \<Rightarrow>
          if err_name error = ''AbortError'' then
            addMessage ''error'' ''Request was cancelled by user.'' s
          else addMessage ''error'' (''Error: '' @ err_message error) s
      | Returned u \<Rightarrow> s
      | Pending \<Rightarrow> s)
     \<lparr>isProcessing := False, isPaused := False, abortController := None\<rparr>"

definition sendMessage :: "nat \<Rightarrow> world \<Rightarrow> string \<Rightarrow> agent \<Rightarrow> unit outcome \<times> agent" where
  "sendMessage fuel w input s =
     (let message = trim input in
      if message = [] \<or> isProcessing s then (Returned (), s)
      else
        let s0 = (addMessage ''user'' message s)
                   \<lparr>isProcessing := True, isPaused := False, abortController := Some False\<rparr>
        in
          (case agentLoop fuel w (initial_messages message) s0 of
             (Pending, messages, s1) \<Rightarrow> (Pending, s1)
           | (Returned u, messages, s1) \<Rightarrow> (Returned (), catch_finally (Returned u) s1)
           | (Threw error, messages, s1) \<Rightarrow> (Returned (), catch_finally (Threw error) s1)))"

section \<open>The shape of a conversation\<close>

text \<open>
  \<open>rounds_ok ids ms\<close>: \<open>ms\<close> is made of assistant messages that carry tool calls, each
  followed by tool messages that name the id of one of its calls; \<open>ids\<close> are the ids of
  the calls of the assistant message that the tool messages at the front of \<open>ms\<close>
  follow.
\<close>

fun rounds_ok :: "string list \<Rightarrow> message list \<Rightarrow> bool" where
  "rounds_ok ids [] = True"
| "rounds_ok ids (m # ms) =
     (case role m of
        Tool \<Rightarrow>
          (case tool_call_id m of
             None \<Rightarrow> False
           | Some i \<Rightarrow> i \<in> set ids \<and> rounds_ok ids ms)
      | Assistant \<Rightarrow>
          (case tool_calls m of
             None \<Rightarrow> False
           | Some tcs \<Rightarrow> rounds_ok (map tc_id tcs) ms)
      | System \<Rightarrow> False
      | User \<Rightarrow> False)"

text \<open>
  \<open>tool_refs_ok seen ms\<close>: every tool message of \<open>ms\<close> names the id of a call of an
  assistant message before it (or one of \<open>seen\<close>).
\<close>

fun tool_refs_ok :: "string list \<Rightarrow> message list \<Rightarrow> bool" where
  "tool_refs_ok seen [] = True"
| "tool_refs_ok seen (m # ms) =
     (if role m = Tool then
        (case tool_call_id m of
           None \<Rightarrow> False
         | Some i \<Rightarrow> i \<in> set seen \<and> tool_refs_ok seen ms)
      else
        tool_refs_ok
          (seen @ (case tool_calls m of None \<Rightarrow> [] | Some tcs \<Rightarrow> map tc_id tcs)) ms)"

text \<open>The assistant messages of a conversation.\<close>

definition assistant_messages :: "message list \<Rightarrow> message list" where
  "assistant_messages ms = filter (\<lambda>m. role m = Assistant) ms"

section \<open>Scenarios\<close>

text \<open>
  A fresh agent as the constructor leaves it, the agent as \<open>sendMessage\<close> starts the
  loop, and a world in which the user clicks nothing and no endpoint answers.
\<close>

definition new_agent :: agent where
  "new_agent = \<lparr>isProcessing = False, isPaused = False, abortController = None,
                 currentProvider = ''aipipe'', apiKey = [], ui = [], clock = 0, llmCalls = 0\<rparr>"

definition running_agent :: agent where
  "running_agent = new_agent\<lparr>isProcessing := True, abortController := Some False\<rparr>"

definition quiet_world :: world where
  "quiet_world =
     \<lparr>timeline = (\<lambda>t. []),
      llm_api = (\<lambda>messages. NetworkFailure),
      search_api = (\<lambda>query num_results. NetworkFailure),
      workflow_api = (\<lambda>prompt instructions input_data. NetworkFailure),
      js_engine = (\<lambda>code. ([], Inr JUndefined)),
      JSON_parse = (\<lambda>text. if text = ''{}'' then Inr (JObj [])
                             else Inl (JsError ''SyntaxError'' ''Unexpected end of JSON input'')),
      JSON_stringify = (\<lambda>v. Inr ''{}''),
      JSON_stringify_pretty = (\<lambda>v. Inr ''{}'')\<rparr>"

definition completion_reply :: "string option \<Rightarrow> tool_call list option \<Rightarrow> completion fetched" where
  "completion_reply text calls =
     Response \<lparr>status = 200, statusText = ''OK'',
               body = Inr \<lparr>choices = Some [Some \<lparr>msg_content = text, msg_tool_calls = calls\<rparr>]\<rparr>\<rparr>"

text \<open>The model answers "Hello!" and asks for no tool.\<close>

definition hello_world :: world where
  "hello_world = quiet_world\<lparr>llm_api := (\<lambda>messages. completion_reply (Some ''Hello!'') None)\<rparr>"

text \<open>The model answers with neither text nor tool calls.\<close>

definition blank_world :: world where
  "blank_world = quiet_world\<lparr>llm_api := (\<lambda>messages. completion_reply None (Some []))\<rparr>"

text \<open>
  The user clicks Pause while the first completion request is in flight, and Cancel in
  the dialog during the first polling round of the checkpoint that follows; then nothing
  more.
\<close>

definition pause_cancel_world :: world where
  "pause_cancel_world =
     hello_world\<lparr>timeline := (\<lambda>t. if t = 0 then [TogglePause]
                                    else if t = 1 then [CancelProcessing] else [])\<rparr>"

text \<open>The same, but the user clicks Resume instead of Cancel.\<close>

definition pause_resume_world :: world where
  "pause_resume_world =
     hello_world\<lparr>timeline := (\<lambda>t. if t = 0 then [TogglePause]
                                    else if t = 1 then [ResumeProcessing] else [])\<rparr>"

text \<open>The model asks for a search with arguments that are not JSON.\<close>

definition bad_arguments_call :: tool_call where
  "bad_arguments_call = \<lparr>tc_id = ''call_1'', fn_name = ''google_search'', fn_arguments = ''{''\<rparr>"

definition bad_arguments_world :: world where
  "bad_arguments_world =
     quiet_world\<lparr>llm_api := (\<lambda>messages. completion_reply None (Some [bad_arguments_call]))\<rparr>"

text \<open>
  The model first asks for a tool that does not exist and for a code evaluation, then
  answers "Done".
\<close>

definition unknown_call :: tool_call where
  "unknown_call = \<lparr>tc_id = ''call_a'', fn_name = ''get_weather'', fn_arguments = ''{}''\<rparr>"

definition code_call :: tool_call where
  "code_call = \<lparr>tc_id = ''call_b'', fn_name = ''execute_javascript'', fn_arguments = ''{}''\<rparr>"

definition tools_world :: world where
  \<open>tools_world =
     quiet_world\<lparr>llm_api := (\<lambda>messages. if length messages = 2
                                           then completion_reply (Some ''Working'') (Some [unknown_call, code_call])
                                           else completion_reply (Some ''Done'') None),
                  JSON_stringify := (\<lambda>v. if v = JObj [(''error'', JStr ''Unknown tool: get_weather'')]
                                          then Inr ''{"error":"Unknown tool: get_weather"}''
                                          else Inr ''{"console_output":[],"success":true}'')\<rparr>\<close>



text \<open>The engine runs a snippet that logs a line and then throws.\<close>

definition throwing_call :: tool_call where
  \<open>throwing_call = \<lparr>tc_id = ''call_d'', fn_name = ''execute_javascript'',
                     fn_arguments = ''{"code":"console.log(1); throw new Error(2)"}''\<rparr>\<close>

definition throwing_world :: world where
  \<open>throwing_world =
     quiet_world\<lparr>js_engine := (\<lambda>code. if code = JStr ''console.log(1); throw new Error(2)''
                                        then ([ConsoleLog [''1'']], Inl (ThrownError (JsError ''Error'' ''2'')))
                                        else ([], Inr JUndefined)),
                  JSON_parse := (\<lambda>text. if text = ''{"code":"console.log(1); throw new Error(2)"}''
                                         then Inr (JObj [(''code'', JStr ''console.log(1); throw new Error(2)'')])
                                         else JSON_parse quiet_world text)\<rparr>\<close>

text \<open>
  The model asks for a search; the provider answers 200 without \<open>items\<close>, 200 with an
  empty \<open>items\<close>, or 403 with a JSON body that describes the error.
\<close>

definition search_call :: tool_call where
  \<open>search_call = \<lparr>tc_id = ''call_s'', fn_name = ''google_search'',
                   fn_arguments = ''{"query":"isabelle"}''\<rparr>\<close>

definition searching_world :: "search_data fetched \<Rightarrow> world" where
  \<open>searching_world reply =
     quiet_world\<lparr>search_api := (\<lambda>query num_results. reply),
                  JSON_parse := (\<lambda>text. if text = ''{"query":"isabelle"}''
                                         then Inr (JObj [(''query'', JStr ''isabelle'')])
                                         else JSON_parse quiet_world text)\<rparr>\<close>

definition no_items_world :: world where
  "no_items_world =
     searching_world (Response \<lparr>status = 200, statusText = ''OK'', body = Inr \<lparr>items = None\<rparr>\<rparr>)"

definition empty_items_world :: world where
  "empty_items_world =
     searching_world (Response \<lparr>status = 200, statusText = ''OK'', body = Inr \<lparr>items = Some []\<rparr>\<rparr>)"

definition forbidden_world :: world where
  "forbidden_world =
     searching_world (Response \<lparr>status = 403, statusText = ''Forbidden'', body = Inr \<lparr>items = None\<rparr>\<rparr>)"



text \<open>
  The model asks for a search; while the search request is in flight the user clicks
  Pause and then Cancel in the dialog; then nothing more.
\<close>

definition cancel_during_tool_world :: world where
  "cancel_during_tool_world =
     (searching_world NetworkFailure)
       \<lparr>llm_api := (\<lambda>messages. completion_reply None (Some [search_call])),
        timeline := (\<lambda>t. if t = 1 then [TogglePause, CancelProcessing] else [])\<rparr>"

text \<open>
  The engine runs \<open>throw 'boom';\<close>, which throws a string, and \<open>throw null;\<close>.
\<close>

definition string_throw_call :: tool_call where
  \<open>string_throw_call = \<lparr>tc_id = ''call_e'', fn_name = ''execute_javascript'',
                         fn_arguments = ''{"code":"throw 'boom';"}''\<rparr>\<close>

definition null_throw_call :: tool_call where
  \<open>null_throw_call = \<lparr>tc_id = ''call_n'', fn_name = ''execute_javascript'',
                       fn_arguments = ''{"code":"throw null;"}''\<rparr>\<close>

definition value_throw_world :: world where
  \<open>value_throw_world =
     quiet_world\<lparr>js_engine := (\<lambda>code. if code = JStr ''throw 'boom';''
                                        then ([], Inl (ThrownValue (JStr ''boom'')))
                                        else if code = JStr ''throw null;''
                                        then ([], Inl (ThrownValue JNull))
                                        else ([], Inr JUndefined)),
                  JSON_parse := (\<lambda>text. if text = ''{"code":"throw 'boom';"}''
                                         then Inr (JObj [(''code'', JStr ''throw 'boom';'')])
                                         else if text = ''{"code":"throw null;"}''
                                         then Inr (JObj [(''code'', JStr ''throw null;'')])
                                         else JSON_parse quiet_world text)\<rparr>\<close>

text \<open>
  The model asks for one code evaluation. The snippet returns an object whose \<open>toJSON\<close>
  throws the first time it is called and gives 7 after that: showing the result throws,
  and appending it to the conversation does not.
\<close>

definition flaky_code :: string where
  "flaky_code = ''let n = 0; return {toJSON() {if (n++) return 7; throw new Error(1)}}''"

definition flaky_call :: tool_call where
  \<open>flaky_call = \<lparr>tc_id = ''call_f'', fn_name = ''execute_javascript'',
                  fn_arguments = ''{"code":"'' @ flaky_code @ ''"}''\<rparr>\<close>

definition flaky_envelope :: json where
  "flaky_envelope =
     JObj [(''code'', JStr flaky_code), (''result'', JObj []),
           (''console_output'', JArr []), (''success'', JBool True)]"

definition flaky_json :: string where
  \<open>flaky_json =
     ''{"code":"'' @ flaky_code @ ''","result":7,"console_output":[],"success":true}''\<close>

definition error_json :: string where
  \<open>error_json = ''{"error":"1"}''\<close>

definition flaky_world :: world where
  \<open>flaky_world =
     quiet_world\<lparr>llm_api := (\<lambda>messages. if length messages = 2
                                           then completion_reply None (Some [flaky_call])
                                           else completion_reply (Some ''Done'') None),
                  js_engine := (\<lambda>code. if code = JStr flaky_code then ([], Inr (JObj []))
                                        else ([], Inr JUndefined)),
                  JSON_parse := (\<lambda>text. if text = fn_arguments flaky_call
                                         then Inr (JObj [(''code'', JStr flaky_code)])
                                         else JSON_parse quiet_world text),
                  JSON_stringify_pretty := (\<lambda>v. if v = flaky_envelope
                                                 then Inl (JsError ''Error'' ''1'')
                                                 else Inr ''{}''),
                  JSON_stringify := (\<lambda>v. if v = flaky_envelope then Inr flaky_json
                                          else Inr error_json)\<rparr>\<close>

text \<open>
  The same request, with a snippet that returns an object whose \<open>toJSON\<close> always
  throws: every \<open>JSON.stringify\<close> of its result throws.
\<close>

definition unserialisable_code :: string where
  "unserialisable_code = ''return {toJSON() {throw new Error(1)}}''"

definition unserialisable_call :: tool_call where
  \<open>unserialisable_call = \<lparr>tc_id = ''call_u'', fn_name = ''execute_javascript'',
                           fn_arguments = ''{"code":"'' @ unserialisable_code @ ''"}''\<rparr>\<close>

definition unserialisable_envelope :: json where
  "unserialisable_envelope =
     JObj [(''code'', JStr unserialisable_code), (''result'', JObj []),
           (''console_output'', JArr []), (''success'', JBool True)]"

definition unserialisable_world :: world where
  \<open>unserialisable_world =
     quiet_world\<lparr>llm_api := (\<lambda>messages. completion_reply None (Some [unserialisable_call])),
                  js_engine := (\<lambda>code. if code = JStr unserialisable_code then ([], Inr (JObj []))
                                        else ([], Inr JUndefined)),
                  JSON_parse := (\<lambda>text. if text = fn_arguments unserialisable_call
                                         then Inr (JObj [(''code'', JStr unserialisable_code)])
                                         else JSON_parse quiet_world text),
                  JSON_stringify_pretty := (\<lambda>v. if v = unserialisable_envelope
                                                 then Inl (JsError ''Error'' ''1'')
                                                 else Inr ''{}''),
                  JSON_stringify := (\<lambda>v. if v = unserialisable_envelope
                                          then Inl (JsError ''Error'' ''1'')
                                          else Inr error_json)\<rparr>\<close>

section \<open>The code evaluation tool\<close>



text \<open>
  When the snippet throws an exception object, the \<open>catch\<close> of \<open>executeJavaScript\<close>
  returns an envelope with \<open>success\<close> false and the message of the exception under
  \<open>error\<close>; the envelope has no \<open>result\<close>.
\<close>

lemma code_eval_exception_object:
  assumes "fn_name toolCall = ''execute_javascript''"
    and "JSON_parse w (fn_arguments toolCall) = Inr (JObj kvs)"
    and "js_engine w (property (JObj kvs) ''code'') = (calls, Inl (ThrownError error))"
  shows "executeTool w toolCall s =
           (Inr (JObj [(''code'', property (JObj kvs) ''code''),
                       (''error'', JStr (err_message error)),
                       (''success'', JBool False)]), s)"
  using assms
  by (simp add: executeTool_def executeJavaScript_def destructure_def message_of_def Let_def)

text \<open>
  C6 fails on the code. The \<open>catch\<close> reads \<open>error.message\<close> of whatever was thrown. A
  snippet that throws a string (\<open>throw 'boom';\<close>) gets an envelope whose \<open>error\<close> is
  \<open>undefined\<close>: no error message. A snippet that throws \<open>null\<close> makes the \<open>catch\<close>
  itself throw a \<open>TypeError\<close>: \<open>executeJavaScript\<close> returns no envelope at all, and the
  result of the call is the \<open>{error}\<close> that \<open>handleToolCalls\<close> makes of the
  \<open>TypeError\<close>, without \<open>success\<close>.
\<close>

theorem thrown_value_without_message:
  "executeTool value_throw_world string_throw_call running_agent =
     (Inr (JObj [(''code'', JStr ''throw 'boom';''), (''error'', JUndefined),
                 (''success'', JBool False)]), running_agent) \<and>
   executeTool value_throw_world null_throw_call running_agent =
     (Inl (TypeError ''Cannot read properties of null (reading 'message')''), running_agent) \<and>
   handleToolCalls fuel value_throw_world [null_throw_call] running_agent =
     (Returned [\<lparr>tr_tool_call_id = ''call_n'',
                 tr_result = JObj [(''error'',
                   JStr ''Cannot read properties of null (reading 'message')'')]\<rparr>],
      running_agent)"
  by (simp add: executeTool_def executeJavaScript_def destructure_def message_of_def
      with_default_def string_throw_call_def null_throw_call_def value_throw_world_def
      quiet_world_def handleToolCalls_def checkPauseState_def signal_aborted_def
      running_agent_def new_agent_def try_tool_def catch_tool_error_def
      updateToolCallResult_def TypeError_def Let_def)

section \<open>The search tool\<close>

text \<open>
  C10. The search tool never looks at the status of the provider's response. Whatever the
  status code and status text, a response whose JSON body has no \<open>items\<close> (a 403 with
  a JSON error body as much as a 200) is returned as the envelope
  \<open>{query, results: [], message: "No results found"}\<close>.
\<close>

theorem search_ignores_status:
  assumes "fn_name toolCall = ''google_search''"
    and "JSON_parse w (fn_arguments toolCall) = Inr (JObj kvs)"
    and "\<not> signal_aborted s" and "\<not> signal_aborted (await_tick w s)"
    and "search_api w (property (JObj kvs) ''query'')
           (with_default (property (JObj kvs) ''num_results'') (JNum 5)) =
         Response \<lparr>status = code, statusText = reason, body = Inr \<lparr>items = None\<rparr>\<rparr>"
  shows "executeTool w toolCall s =
           (Inr (JObj [(''query'', property (JObj kvs) ''query''),
                       (''results'', JArr []),
                       (''message'', JStr ''No results found'')]), await_tick w s)"
  using assms by (simp add: executeTool_def googleSearch_def destructure_def fetch_def Let_def)

theorem search_ignores_status_witness:
  "executeTool forbidden_world search_call running_agent =
     (Inr (JObj [(''query'', JStr ''isabelle''), (''results'', JArr []),
                 (''message'', JStr ''No results found'')]), running_agent\<lparr>clock := 1\<rparr>)"
  using search_ignores_status [where toolCall = search_call and w = forbidden_world
      and s = running_agent and kvs = "[(''query'', JStr ''isabelle'')]" and code = 403
      and reason = "''Forbidden''"]
  by (simp add: search_call_def forbidden_world_def searching_world_def quiet_world_def
      running_agent_def new_agent_def signal_aborted_def await_tick_def with_default_def)

text \<open>
  C7, as stated, fails when the provider answers with an empty \<open>items\<close> array: an empty
  array is truthy, so the tool takes the branch that maps the items and returns
  \<open>{query, results: []}\<close> with no message.
\<close>

theorem empty_items_without_message:
  "executeTool empty_items_world search_call running_agent =
     (Inr (JObj [(''query'', JStr ''isabelle''), (''results'', JArr [])]),
      running_agent\<lparr>clock := 1\<rparr>) \<and>
   property (JObj [(''query'', JStr ''isabelle''), (''results'', JArr [])]) ''message'' = JUndefined"
  by (simp add: executeTool_def googleSearch_def destructure_def fetch_def Let_def
      search_call_def empty_items_world_def searching_world_def quiet_world_def
      running_agent_def new_agent_def signal_aborted_def await_tick_def with_default_def)

text \<open>
  C7, amended. When the provider's response has no \<open>items\<close>, the search tool returns
  \<open>{query, results: [], message: "No results found"}\<close>; when it has an empty \<open>items\<close>
  array, the tool returns \<open>{query, results: []}\<close>, without a message. In both cases
  the tool returns this envelope and throws nothing.
\<close>

theorem search_zero_results:
  assumes "fn_name toolCall = ''google_search''"
    and "JSON_parse w (fn_arguments toolCall) = Inr (JObj kvs)"
    and "\<not> signal_aborted s" and "\<not> signal_aborted (await_tick w s)"
    and "search_api w (property (JObj kvs) ''query'')
           (with_default (property (JObj kvs) ''num_results'') (JNum 5)) = Response r"
    and "body r = Inr data"
    and "items data = None \<or> items data = Some []"
  shows "executeTool w toolCall s =
           (Inr (JObj ([(''query'', property (JObj kvs) ''query''), (''results'', JArr [])] @
                       (if items data = None then [(''message'', JStr ''No results found'')]
                        else []))), await_tick w s)"
  using assms by (auto simp add: executeTool_def googleSearch_def destructure_def fetch_def Let_def)

theorem search_zero_results_witness:
  "executeTool no_items_world search_call running_agent =
     (Inr (JObj [(''query'', JStr ''isabelle''), (''results'', JArr []),
                 (''message'', JStr ''No results found'')]), running_agent\<lparr>clock := 1\<rparr>)"
  using search_zero_results [where toolCall = search_call and w = no_items_world
      and s = running_agent and kvs = "[(''query'', JStr ''isabelle'')]"
      and r = "\<lparr>status = 200, statusText = ''OK'', body = Inr \<lparr>items = None\<rparr>\<rparr>"
      and data = "\<lparr>items = None\<rparr>"]
  by (simp add: search_call_def no_items_world_def searching_world_def quiet_world_def
      running_agent_def new_agent_def signal_aborted_def await_tick_def with_default_def)

section \<open>The checkpoint and cancellation\<close>

text \<open>
  While the agent is not paused, the checkpoint returns at once, or throws at once when
  the signal is aborted.
\<close>

lemma checkPauseState_running:
  "\<not> isPaused s \<Longrightarrow> \<not> signal_aborted s \<Longrightarrow> checkPauseState fuel w s = (Returned (), s)"
  by (simp add: checkPauseState_def)

lemma checkPauseState_cancelled:
  "\<not> isPaused s \<Longrightarrow> signal_aborted s \<Longrightarrow>
   checkPauseState fuel w s = (Threw (Error ''Request was cancelled''), s)"
  by (simp add: checkPauseState_def)

lemma await_tick_quiet:
  "timeline w (clock s) = [] \<Longrightarrow> await_tick w s = s\<lparr>clock := Suc (clock s)\<rparr>"
  by (simp add: await_tick_def)

text \<open>
  While the agent is paused, the checkpoint polls for as long as \<open>isPaused\<close> and
  \<open>isProcessing\<close> hold, whatever the signal says: if the user clicks nothing more, it
  is still pending after any number of rounds.
\<close>

lemma wait_while_paused_stuck:
  "isPaused s \<Longrightarrow> isProcessing s \<Longrightarrow> (\<forall>t\<ge>clock s. timeline w t = []) \<Longrightarrow>
   wait_while_paused fuel w s = (Pending, s\<lparr>clock := clock s + fuel\<rparr>)"
proof (induction fuel arbitrary: s)
  case 0
  then show ?case by simp
next
  case (Suc fuel)
  from Suc.prems have tick: "await_tick w s = s\<lparr>clock := Suc (clock s)\<rparr>"
    by (simp add: await_tick_quiet)
  have "wait_while_paused fuel w (s\<lparr>clock := Suc (clock s)\<rparr>) =
          (Pending, s\<lparr>clock := Suc (clock s)\<rparr>\<lparr>clock := clock (s\<lparr>clock := Suc (clock s)\<rparr>) + fuel\<rparr>)"
    by (rule Suc.IH) (use Suc.prems in simp_all)
  with Suc.prems tick show ?case by simp
qed

lemma checkPauseState_stuck:
  "isPaused s \<Longrightarrow> isProcessing s \<Longrightarrow> (\<forall>t\<ge>clock s. timeline w t = []) \<Longrightarrow>
   checkPauseState fuel w s = (Pending, s\<lparr>clock := clock s + fuel\<rparr>)"
  by (simp add: checkPauseState_def wait_while_paused_stuck)

text \<open>
  \<open>cancelProcessing\<close> changes neither \<open>isPaused\<close> nor \<open>isProcessing\<close>, so a checkpoint
  that is polling when the user cancels goes on polling.
\<close>

lemma cancelProcessing_keeps_pause:
  "isPaused (cancelProcessing s) = isPaused s \<and>
   isProcessing (cancelProcessing s) = isProcessing s \<and>
   clock (cancelProcessing s) = clock s"
  by (simp add: cancelProcessing_def addMessage_def split: option.splits)

lemma checkpoint_stuck_after_cancel:
  assumes "isPaused s" and "isProcessing s" and "\<forall>t\<ge>clock s. timeline w t = []"
  shows "checkPauseState fuel w (cancelProcessing s) =
           (Pending, (cancelProcessing s)\<lparr>clock := clock s + fuel\<rparr>)"
  using assms checkPauseState_stuck [of "cancelProcessing s" w fuel]
  by (simp add: cancelProcessing_keeps_pause)

text \<open>
  C1 fails on the code. \<open>cancelProcessing\<close> aborts the signal but leaves \<open>isPaused\<close>
  set, and the Cancel button is in the dialog that Pause opens. The user pauses during
  the completion request and cancels at the checkpoint that follows: the checkpoint does
  not throw, and the turn is pending after any number of polling rounds, with the signal
  aborted and the agent still paused and processing.
\<close>

theorem cancel_while_paused_never_returns:
  "sendMessage (Suc fuel) pause_cancel_world ''hello'' new_agent =
     (Pending,
      \<lparr>isProcessing = True, isPaused = True, abortController = Some True,
       currentProvider = ''aipipe'', apiKey = [],
       ui = [(''user'', ''hello''), (''agent'', ''**Processing cancelled by user.**'')],
       clock = Suc (Suc fuel), llmCalls = 1\<rparr>)"
proof -
  let ?s3 = "\<lparr>isProcessing = True, isPaused = True, abortController = Some True,
       currentProvider = ''aipipe'', apiKey = [],
       ui = [(''user'', ''hello''), (''agent'', ''**Processing cancelled by user.**'')],
       clock = Suc (Suc 0), llmCalls = Suc 0\<rparr>"
  have stuck: "wait_while_paused fuel pause_cancel_world ?s3 = (Pending, ?s3\<lparr>clock := clock ?s3 + fuel\<rparr>)"
    by (rule wait_while_paused_stuck) (simp_all add: pause_cancel_world_def)
  show ?thesis
    using stuck
    by (simp add: sendMessage_def trim_def white_space_def strip.simps new_agent_def addMessage_def
        agentLoop_iteration_def checkPauseState_def signal_aborted_def callLLM_def getHeaders_def
        fetch_def await_tick_def pause_cancel_world_def hello_world_def quiet_world_def
        completion_reply_def ok_def first_message_def togglePause_def cancelProcessing_def Let_def)
qed

text \<open>In the same scenario with Resume instead of Cancel the turn returns.\<close>

lemma resume_while_paused_returns:
  "sendMessage (Suc fuel) pause_resume_world ''hello'' new_agent =
     (Returned (),
      \<lparr>isProcessing = False, isPaused = False, abortController = None,
       currentProvider = ''aipipe'', apiKey = [],
       ui = [(''user'', ''hello''), (''agent'', ''**Processing resumed...**''), (''agent'', ''Hello!'')],
       clock = 2, llmCalls = 1\<rparr>)"
  by (cases fuel)
     (simp_all add: sendMessage_def trim_def white_space_def strip.simps new_agent_def addMessage_def
        agentLoop_iteration_def checkPauseState_def signal_aborted_def callLLM_def getHeaders_def
        fetch_def await_tick_def pause_resume_world_def hello_world_def quiet_world_def
        completion_reply_def ok_def first_message_def togglePause_def resumeProcessing_def
        catch_finally_def Let_def)

text \<open>
  When the checkpoint does throw, its error is a plain \<open>Error\<close>, which \<open>sendMessage\<close>
  reports through the branch for errors other than an abort.
\<close>

lemma checkpoint_cancel_reported_as_error:
  "catch_finally (Threw (Error ''Request was cancelled'')) s =
     (addMessage ''error'' ''Error: Request was cancelled'' s)
     \<lparr>isProcessing := False, isPaused := False, abortController := None\<rparr>"
  by (simp add: catch_finally_def Error_def)

text \<open>
  The same happens when the user pauses and cancels while a tool's request is in flight:
  the search fails with the abort, its failure becomes the result of the call, and the
  next checkpoint polls for ever.
\<close>

lemma cancel_during_tool_never_returns:
  "sendMessage (Suc (Suc fuel)) cancel_during_tool_world ''find it'' new_agent =
     (Pending,
      \<lparr>isProcessing = True, isPaused = True, abortController = Some True,
       currentProvider = ''aipipe'', apiKey = [],
       ui = [(''user'', ''find it''), (''agent'', ''**Processing cancelled by user.**'')],
       clock = Suc (Suc (Suc fuel)), llmCalls = 1\<rparr>)"
proof -
  let ?s = "\<lparr>isProcessing = True, isPaused = True, abortController = Some True,
       currentProvider = ''aipipe'', apiKey = [],
       ui = [(''user'', ''find it''), (''agent'', ''**Processing cancelled by user.**'')],
       clock = Suc (Suc 0), llmCalls = Suc 0\<rparr>"
  have stuck: "wait_while_paused (Suc fuel) cancel_during_tool_world ?s =
                 (Pending, ?s\<lparr>clock := clock ?s + Suc fuel\<rparr>)"
    by (rule wait_while_paused_stuck)
       (simp_all add: cancel_during_tool_world_def searching_world_def)
  have first: "agentLoop_iteration (Suc (Suc fuel)) cancel_during_tool_world
                 (initial_messages ''find it'')
                 (new_agent\<lparr>ui := [(''user'', ''find it'')], isProcessing := True,
                             abortController := Some False\<rparr>) =
               (Continue,
                initial_messages ''find it'' @
                  [assistant_message [] [search_call], tool_message ''{}'' ''call_s''], ?s)"
    by (simp add: agentLoop_iteration_def checkPauseState_def signal_aborted_def callLLM_def
        getHeaders_def fetch_def await_tick_def cancel_during_tool_world_def
        searching_world_def quiet_world_def completion_reply_def ok_def first_message_def
        new_agent_def trim_def white_space_def strip.simps handleToolCalls_def search_call_def
        executeTool_def googleSearch_def destructure_def with_default_def try_tool_def
        catch_tool_error_def updateToolCallResult_def
        togglePause_def cancelProcessing_def addMessage_def Let_def)
  have second: "agentLoop_iteration (Suc fuel) cancel_during_tool_world msgs ?s =
                  (Finished Pending, msgs, ?s\<lparr>clock := clock ?s + Suc fuel\<rparr>)" for msgs
    using stuck by (simp add: agentLoop_iteration_def checkPauseState_def del: wait_while_paused.simps)
  show ?thesis
    using first second
    by (simp add: sendMessage_def trim_def white_space_def strip.simps new_agent_def addMessage_def
        del: agentLoop.simps wait_while_paused.simps)
       (simp add: new_agent_def)
qed

section \<open>Failures of a tool call\<close>

text \<open>
  C2 fails on the code. \<open>handleToolCalls\<close> parses the arguments of every call in
  \<open>addToolCallsUI\<close>, outside its \<open>try\<close>: a call whose arguments are not JSON makes
  \<open>handleToolCalls\<close> throw the \<open>SyntaxError\<close>, no tool message is produced, and the
  turn ends with an error.
\<close>

theorem malformed_arguments_end_turn:
  "handleToolCalls fuel bad_arguments_world [bad_arguments_call] running_agent =
     (Threw (JsError ''SyntaxError'' ''Unexpected end of JSON input''), running_agent) \<and>
   sendMessage (Suc fuel) bad_arguments_world ''hello'' new_agent =
     (Returned (),
      \<lparr>isProcessing = False, isPaused = False, abortController = None,
       currentProvider = ''aipipe'', apiKey = [],
       ui = [(''user'', ''hello''), (''error'', ''Error: Unexpected end of JSON input'')],
       clock = 1, llmCalls = 1\<rparr>)"
  by (simp add: handleToolCalls_def bad_arguments_world_def bad_arguments_call_def
        sendMessage_def trim_def white_space_def strip.simps new_agent_def addMessage_def
        agentLoop_iteration_def checkPauseState_def signal_aborted_def callLLM_def getHeaders_def
        fetch_def await_tick_def quiet_world_def
        completion_reply_def ok_def first_message_def catch_finally_def Let_def)

text \<open>
  A call of a tool that does not exist, with arguments that parse, is captured: its
  result is \<open>{error: "Unknown tool: <name>"}\<close>.
\<close>

lemma unknown_tool_is_captured:
  assumes "JSON_parse w (fn_arguments toolCall) = Inr params"
    and "fn_name toolCall \<noteq> ''google_search''"
    and "fn_name toolCall \<noteq> ''ai_pipe_workflow''"
    and "fn_name toolCall \<noteq> ''execute_javascript''"
    and "\<not> isPaused s" and "\<not> signal_aborted s"
    and "JSON_stringify_pretty w (JObj [(''error'', JStr (''Unknown tool: '' @ fn_name toolCall))]) =
           Inr shown"
  shows "handleToolCalls fuel w [toolCall] s =
           (Returned [\<lparr>tr_tool_call_id = tc_id toolCall,
                       tr_result = JObj [(''error'', JStr (''Unknown tool: '' @ fn_name toolCall))]\<rparr>], s)"
  using assms
  by (simp add: handleToolCalls_def checkPauseState_def executeTool_def try_tool_def
      catch_tool_error_def updateToolCallResult_def Error_def)

section \<open>Tool results in the conversation\<close>

text \<open>
  C3 fails on the code. In the \<open>try\<close> of \<open>handleToolCalls\<close> the result of a call is
  added to \<open>results\<close> first and shown second; when showing it throws, the \<open>catch\<close>
  adds a second result, an \<open>{error}\<close>, for the same call. The snippet of the scenario
  returns an object whose \<open>toJSON\<close> throws at its first call only: \<open>handleToolCalls\<close>
  returns two results for the one call, and the pass appends two tool messages with the
  id of that call before it goes on to the next model request.
\<close>

theorem shown_result_failure_duplicates_tool_message:
  "handleToolCalls (Suc 0) flaky_world [flaky_call] (running_agent\<lparr>clock := 1, llmCalls := 1\<rparr>) =
     (Returned [\<lparr>tr_tool_call_id = ''call_f'', tr_result = flaky_envelope\<rparr>,
                \<lparr>tr_tool_call_id = ''call_f'', tr_result = JObj [(''error'', JStr ''1'')]\<rparr>],
      running_agent\<lparr>clock := 1, llmCalls := 1\<rparr>) \<and>
   agentLoop_iteration (Suc 0) flaky_world (initial_messages ''go'') running_agent =
     (Continue,
      initial_messages ''go'' @
        [assistant_message [] [flaky_call],
         tool_message flaky_json ''call_f'',
         tool_message error_json ''call_f''],
      running_agent\<lparr>clock := 1, llmCalls := 1\<rparr>)"
proof -
  have tool: "executeTool flaky_world flaky_call (running_agent\<lparr>clock := Suc 0, llmCalls := Suc 0\<rparr>) =
                (Inr flaky_envelope, running_agent\<lparr>clock := Suc 0, llmCalls := Suc 0\<rparr>)"
    by (simp add: executeTool_def executeJavaScript_def destructure_def with_default_def
        flaky_world_def flaky_call_def flaky_envelope_def quiet_world_def Let_def)
  have ne: "flaky_envelope \<noteq> JObj [(''error'', JStr ''1'')]"
    by (simp add: flaky_envelope_def)
  have parse: "JSON_parse flaky_world (fn_arguments flaky_call) = Inr (JObj [(''code'', JStr flaky_code)])"
    by (simp add: flaky_world_def)
  have id: "tc_id flaky_call = ''call_f''"
    by (simp add: flaky_call_def)
  have show1: "updateToolCallResult flaky_world i flaky_envelope = Inl (JsError ''Error'' ''1'')" for i
    by (simp add: updateToolCallResult_def flaky_world_def quiet_world_def)
  have show2: "updateToolCallResult flaky_world i (JObj [(''error'', JStr ''1'')]) = Inr ()" for i
    using ne by (simp add: updateToolCallResult_def flaky_world_def quiet_world_def)
  have tried: "try_tool flaky_world flaky_call [] (running_agent\<lparr>clock := Suc 0, llmCalls := Suc 0\<rparr>) =
     (Inr [\<lparr>tr_tool_call_id = ''call_f'', tr_result = flaky_envelope\<rparr>,
           \<lparr>tr_tool_call_id = ''call_f'', tr_result = JObj [(''error'', JStr ''1'')]\<rparr>],
      running_agent\<lparr>clock := Suc 0, llmCalls := Suc 0\<rparr>)"
    by (simp add: try_tool_def catch_tool_error_def tool show1 show2 id Let_def)
  have chk1: "checkPauseState (Suc 0) flaky_world (running_agent\<lparr>clock := Suc 0, llmCalls := Suc 0\<rparr>) =
       (Returned (), running_agent\<lparr>clock := Suc 0, llmCalls := Suc 0\<rparr>)"
    by (simp add: checkPauseState_def signal_aborted_def running_agent_def new_agent_def)
  have h: "handleToolCalls (Suc 0) flaky_world [flaky_call] (running_agent\<lparr>clock := Suc 0, llmCalls := Suc 0\<rparr>) =
     (Returned [\<lparr>tr_tool_call_id = ''call_f'', tr_result = flaky_envelope\<rparr>,
                \<lparr>tr_tool_call_id = ''call_f'', tr_result = JObj [(''error'', JStr ''1'')]\<rparr>],
      running_agent\<lparr>clock := Suc 0, llmCalls := Suc 0\<rparr>)"
    by (simp add: handleToolCalls_def parse chk1 tried)
  have llm: "callLLM flaky_world (initial_messages ''go'') running_agent =
               (Inr ([], [flaky_call]), running_agent\<lparr>clock := Suc 0, llmCalls := Suc 0\<rparr>)"
    by (simp add: callLLM_def getHeaders_def fetch_def await_tick_def signal_aborted_def
        flaky_world_def quiet_world_def completion_reply_def ok_def first_message_def
        running_agent_def new_agent_def initial_messages_def Let_def)
  have chk: "checkPauseState (Suc 0) flaky_world running_agent = (Returned (), running_agent)"
    "checkPauseState (Suc 0) flaky_world (running_agent\<lparr>clock := Suc 0, llmCalls := Suc 0\<rparr>) =
       (Returned (), running_agent\<lparr>clock := Suc 0, llmCalls := Suc 0\<rparr>)"
    by (simp_all add: checkPauseState_def signal_aborted_def running_agent_def new_agent_def)
  have tr: "trim [] = []"
    by (simp add: trim_def white_space_def strip.simps)
  have nc: "[flaky_call] \<noteq> []" by simp
  have str1: "JSON_stringify flaky_world flaky_envelope = Inr flaky_json"
    by (simp add: flaky_world_def)
  have str2: "JSON_stringify flaky_world (JObj [(''error'', JStr ''1'')]) = Inr error_json"
    using ne by (simp add: flaky_world_def)
  have "agentLoop_iteration (Suc 0) flaky_world (initial_messages ''go'') running_agent =
     (Continue,
      initial_messages ''go'' @
        [assistant_message [] [flaky_call],
         tool_message flaky_json ''call_f'',
         tool_message error_json ''call_f''],
      running_agent\<lparr>clock := Suc 0, llmCalls := Suc 0\<rparr>)"
    by (simp add: agentLoop_iteration_def chk llm tr h str1 str2)
  with h show ?thesis by simp
qed

text \<open>
  Whatever the tools and the serialiser do, the results that \<open>handleToolCalls\<close> returns
  carry ids of the calls it was given, and the tool messages that a pass appends carry
  ids of results.
\<close>

lemma try_tool_ids:
  "try_tool w toolCall results s = (Inr results', s') \<Longrightarrow>
   tr_tool_call_id ` set results' \<subseteq> tr_tool_call_id ` set results \<union> {tc_id toolCall}"
  by (auto simp: try_tool_def catch_tool_error_def Let_def
      split: prod.splits sum.splits)

lemma tool_loop_ids:
  "tool_loop fuel w tcs results s = (Returned rs, s') \<Longrightarrow>
   tr_tool_call_id ` set rs \<subseteq> tr_tool_call_id ` set results \<union> tc_id ` set tcs"
proof (induction tcs arbitrary: results s)
  case Nil
  then show ?case by auto
next
  case (Cons tc tcs)
  from Cons.prems obtain s1 where "checkPauseState fuel w s = (Returned (), s1)"
    by (auto split: prod.splits outcome.splits)
  with Cons.prems obtain results' s2 where
    t: "try_tool w tc results s1 = (Inr results', s2)"
    and l: "tool_loop fuel w tcs results' s2 = (Returned rs, s')"
    by (auto split: prod.splits sum.splits)
  from Cons.IH [OF l] try_tool_ids [OF t] show ?case
    by auto
qed

lemma handleToolCalls_ids:
  assumes "handleToolCalls fuel w tcs s = (Returned rs, s')"
  shows "tr_tool_call_id ` set rs \<subseteq> tc_id ` set tcs"
proof -
  from assms have "tool_loop fuel w tcs [] s = (Returned rs, s')"
    by (simp add: handleToolCalls_def split: sum.splits)
  from tool_loop_ids [OF this] show ?thesis
    by simp
qed

lemma push_tool_results_shape:
  "push_tool_results w rs messages = (r, messages') \<Longrightarrow>
   \<exists>tms. messages' = messages @ tms \<and>
         (\<forall>m\<in>set tms. role m = Tool \<and> tool_call_id m \<in> Some ` tr_tool_call_id ` set rs)"
proof (induction rs arbitrary: messages)
  case Nil
  then show ?case by simp
next
  case (Cons x rs)
  show ?case
  proof (cases "JSON_stringify w (tr_result x)")
    case (Inl e)
    with Cons.prems show ?thesis by simp
  next
    case (Inr shown)
    with Cons.prems have
      "push_tool_results w rs (messages @ [tool_message shown (tr_tool_call_id x)]) = (r, messages')"
      by simp
    from Cons.IH [OF this] obtain tms where
      "messages' = (messages @ [tool_message shown (tr_tool_call_id x)]) @ tms"
      "\<forall>m\<in>set tms. role m = Tool \<and> tool_call_id m \<in> Some ` tr_tool_call_id ` set rs"
      by blast
    then have "messages' = messages @ (tool_message shown (tr_tool_call_id x) # tms) \<and>
      (\<forall>m\<in>set (tool_message shown (tr_tool_call_id x) # tms).
         role m = Tool \<and> tool_call_id m \<in> Some ` tr_tool_call_id ` set (x # rs))"
      by (auto simp: tool_message_def)
    then show ?thesis by blast
  qed
qed



lemma iteration_cases:
  "agentLoop_iteration fuel w messages s = (it, messages', s') \<Longrightarrow>
   messages' = messages \<or>
   (\<exists>out tcs rs r s5 s6.
      handleToolCalls fuel w tcs s5 = (Returned rs, s6) \<and>
      push_tool_results w rs (messages @ [assistant_message out tcs]) = (r, messages'))"
  unfolding agentLoop_iteration_def Let_def
  apply (auto split: prod.splits outcome.splits sum.splits if_splits option.splits)
     apply metis+
  done

text \<open>
  The second result comes from the display alone: when showing a result never throws,
  \<open>handleToolCalls\<close> returns one result per call, in the order of the calls.
\<close>

lemma try_tool_one_result:
  assumes "\<And>v. \<exists>shown. JSON_stringify_pretty w v = Inr shown"
    and "try_tool w toolCall results s = (Inr results', s')"
  shows "map tr_tool_call_id results' = map tr_tool_call_id results @ [tc_id toolCall]"
proof -
  have shown: "updateToolCallResult w i v = Inr ()" for i v
    using assms(1) [of v] by (auto simp: updateToolCallResult_def)
  from assms(2) show ?thesis
    by (auto simp: try_tool_def catch_tool_error_def shown Let_def split: prod.splits sum.splits)
qed

lemma tool_loop_one_result_each:
  assumes "\<And>v. \<exists>shown. JSON_stringify_pretty w v = Inr shown"
  shows "tool_loop fuel w tcs results s = (Returned rs, s') \<Longrightarrow>
         map tr_tool_call_id rs = map tr_tool_call_id results @ map tc_id tcs"
proof (induction tcs arbitrary: results s)
  case Nil
  then show ?case by simp
next
  case (Cons tc tcs)
  from Cons.prems obtain s1 where "checkPauseState fuel w s = (Returned (), s1)"
    by (auto split: prod.splits outcome.splits)
  with Cons.prems obtain results' s2 where
    t: "try_tool w tc results s1 = (Inr results', s2)"
    and l: "tool_loop fuel w tcs results' s2 = (Returned rs, s')"
    by (auto split: prod.splits sum.splits)
  from Cons.IH [OF l] try_tool_one_result [OF assms t] show ?case
    by simp
qed

lemma one_result_per_call_when_shown:
  assumes "\<And>v. \<exists>shown. JSON_stringify_pretty w v = Inr shown"
    and "handleToolCalls fuel w tcs s = (Returned rs, s')"
  shows "map tr_tool_call_id rs = map tc_id tcs"
proof -
  from assms(2) have "tool_loop fuel w tcs [] s = (Returned rs, s')"
    by (simp add: handleToolCalls_def split: sum.splits)
  from tool_loop_one_result_each [OF assms(1) this] show ?thesis
    by simp
qed

text \<open>
  When every serialisation of the result throws, the result is doubled in the same way,
  and then \<open>JSON.stringify\<close> throws in \<open>agentLoop\<close>: the turn ends with the assistant
  message appended and no tool message after it.
\<close>

lemma unserialisable_result_ends_turn:
  "agentLoop (Suc fuel) unserialisable_world (initial_messages ''go'') running_agent =
     (Threw (JsError ''Error'' ''1''),
      initial_messages ''go'' @ [assistant_message [] [unserialisable_call]],
      running_agent\<lparr>clock := 1, llmCalls := 1\<rparr>)"
proof -
  let ?s = "running_agent\<lparr>clock := Suc 0, llmCalls := Suc 0\<rparr>"
  have ne: "unserialisable_envelope \<noteq> JObj [(''error'', JStr ''1'')]"
    by (simp add: unserialisable_envelope_def)
  have tool: "executeTool unserialisable_world unserialisable_call ?s = (Inr unserialisable_envelope, ?s)"
    by (simp add: executeTool_def executeJavaScript_def destructure_def with_default_def
        unserialisable_world_def unserialisable_call_def unserialisable_envelope_def
        quiet_world_def Let_def)
  have parse: "JSON_parse unserialisable_world (fn_arguments unserialisable_call) =
                 Inr (JObj [(''code'', JStr unserialisable_code)])"
    by (simp add: unserialisable_world_def)
  have id: "tc_id unserialisable_call = ''call_u''"
    by (simp add: unserialisable_call_def)
  have show1: "updateToolCallResult unserialisable_world i unserialisable_envelope =
                 Inl (JsError ''Error'' ''1'')" for i
    by (simp add: updateToolCallResult_def unserialisable_world_def quiet_world_def)
  have show2: "updateToolCallResult unserialisable_world i (JObj [(''error'', JStr ''1'')]) = Inr ()" for i
    using ne by (simp add: updateToolCallResult_def unserialisable_world_def quiet_world_def)
  have tried: "try_tool unserialisable_world unserialisable_call [] ?s =
     (Inr [\<lparr>tr_tool_call_id = ''call_u'', tr_result = unserialisable_envelope\<rparr>,
           \<lparr>tr_tool_call_id = ''call_u'', tr_result = JObj [(''error'', JStr ''1'')]\<rparr>], ?s)"
    by (simp add: try_tool_def catch_tool_error_def tool show1 show2 id Let_def)
  have chk: "checkPauseState (Suc fuel) unserialisable_world running_agent = (Returned (), running_agent)"
    "checkPauseState (Suc fuel) unserialisable_world ?s = (Returned (), ?s)"
    by (simp_all add: checkPauseState_def signal_aborted_def running_agent_def new_agent_def)
  have h: "handleToolCalls (Suc fuel) unserialisable_world [unserialisable_call] ?s =
     (Returned [\<lparr>tr_tool_call_id = ''call_u'', tr_result = unserialisable_envelope\<rparr>,
                \<lparr>tr_tool_call_id = ''call_u'', tr_result = JObj [(''error'', JStr ''1'')]\<rparr>], ?s)"
    by (simp add: handleToolCalls_def parse chk tried)
  have llm: "callLLM unserialisable_world (initial_messages ''go'') running_agent =
               (Inr ([], [unserialisable_call]), ?s)"
    by (simp add: callLLM_def getHeaders_def fetch_def await_tick_def signal_aborted_def
        unserialisable_world_def quiet_world_def completion_reply_def ok_def first_message_def
        running_agent_def new_agent_def Let_def)
  have tr: "trim [] = []"
    by (simp add: trim_def white_space_def strip.simps)
  have str: "JSON_stringify unserialisable_world unserialisable_envelope = Inl (JsError ''Error'' ''1'')"
    by (simp add: unserialisable_world_def)
  have "agentLoop_iteration (Suc fuel) unserialisable_world (initial_messages ''go'') running_agent =
     (Finished (Threw (JsError ''Error'' ''1'')),
      initial_messages ''go'' @ [assistant_message [] [unserialisable_call]], ?s)"
    by (simp add: agentLoop_iteration_def chk llm tr h str)
  then show ?thesis by simp
qed

section \<open>Counting the completion requests\<close>

text \<open>
  Neither the clicks of the user, nor the checkpoints, nor the tools touch the count of
  completion requests; \<open>callLLM\<close> adds one to it when it returns a response.
\<close>

lemma handle_event_llmCalls: "llmCalls (handle_event e s) = llmCalls s"
  by (cases e)
     (auto simp: togglePause_def resumeProcessing_def cancelProcessing_def addMessage_def
        split: option.splits)

lemma fold_handle_event_llmCalls: "llmCalls (fold handle_event es s) = llmCalls s"
  by (induction es arbitrary: s) (simp_all add: handle_event_llmCalls)

lemma await_tick_llmCalls: "llmCalls (await_tick w s) = llmCalls s"
  by (simp add: await_tick_def fold_handle_event_llmCalls)

lemma wait_while_paused_llmCalls:
  "wait_while_paused fuel w s = (r, s') \<Longrightarrow> llmCalls s' = llmCalls s"
proof (induction fuel arbitrary: s)
  case 0
  then show ?case by (auto split: if_splits)
next
  case (Suc fuel)
  show ?case
  proof (cases "isPaused s \<and> isProcessing s")
    case True
    with Suc.prems have "wait_while_paused fuel w (await_tick w s) = (r, s')"
      by simp
    from Suc.IH [OF this] show ?thesis
      by (simp add: await_tick_llmCalls)
  next
    case False
    with Suc.prems show ?thesis by auto
  qed
qed

lemma checkPauseState_llmCalls:
  assumes "checkPauseState fuel w s = (r, s')"
  shows "llmCalls s' = llmCalls s"
proof (cases "isPaused s")
  case True
  obtain r0 s0 where w: "wait_while_paused fuel w s = (r0, s0)"
    by (cases "wait_while_paused fuel w s")
  with assms True have "s' = s0"
    by (cases r0) (auto simp: checkPauseState_def split: if_splits)
  with wait_while_paused_llmCalls [OF w] show ?thesis by simp
next
  case False
  with assms show ?thesis
    by (auto simp: checkPauseState_def split: if_splits)
qed

lemma fetch_llmCalls:
  "fetch w reply s = (r, s') \<Longrightarrow> llmCalls s' = llmCalls s"
  by (auto simp: fetch_def Let_def await_tick_llmCalls split: if_splits fetched.splits)

lemma googleSearch_llmCalls:
  "googleSearch w params s = (r, s') \<Longrightarrow> llmCalls s' = llmCalls s"
  unfolding googleSearch_def Let_def
  by (auto split: sum.splits prod.splits option.splits dest: fetch_llmCalls)

lemma aiPipeWorkflow_llmCalls:
  "aiPipeWorkflow w params s = (r, s') \<Longrightarrow> llmCalls s' = llmCalls s"
  unfolding aiPipeWorkflow_def Let_def
  by (auto split: sum.splits prod.splits if_splits dest: fetch_llmCalls)

lemma executeTool_llmCalls:
  "executeTool w toolCall s = (r, s') \<Longrightarrow> llmCalls s' = llmCalls s"
  unfolding executeTool_def
  by (auto split: sum.splits if_splits dest: googleSearch_llmCalls aiPipeWorkflow_llmCalls)

lemma try_tool_llmCalls:
  "try_tool w toolCall results s = (r, s') \<Longrightarrow> llmCalls s' = llmCalls s"
  unfolding try_tool_def Let_def
  by (auto split: sum.splits prod.splits dest: executeTool_llmCalls)

lemma tool_loop_llmCalls:
  "tool_loop fuel w tcs results s = (r, s') \<Longrightarrow> llmCalls s' = llmCalls s"
proof (induction tcs arbitrary: results s)
  case Nil
  then show ?case by simp
next
  case (Cons tc tcs)
  obtain r1 s1 where c: "checkPauseState fuel w s = (r1, s1)"
    by (cases "checkPauseState fuel w s")
  note c1 = checkPauseState_llmCalls [OF c]
  show ?case
  proof (cases r1)
    case (Returned u)
    obtain r2 s2 where t: "try_tool w tc results s1 = (r2, s2)"
      by (cases "try_tool w tc results s1")
    note t1 = try_tool_llmCalls [OF t]
    show ?thesis
    proof (cases r2)
      case (Inl e)
      with Cons.prems c Returned t c1 t1 show ?thesis by auto
    next
      case (Inr results')
      with Cons.prems c Returned t have "tool_loop fuel w tcs results' s2 = (r, s')"
        by simp
      from Cons.IH [OF this] c1 t1 show ?thesis by simp
    qed
  next
    case (Threw e)
    with Cons.prems c c1 show ?thesis by auto
  next
    case Pending
    with Cons.prems c c1 show ?thesis by auto
  qed
qed

lemma handleToolCalls_llmCalls:
  "handleToolCalls fuel w tcs s = (r, s') \<Longrightarrow> llmCalls s' = llmCalls s"
  unfolding handleToolCalls_def
  by (auto split: sum.splits dest: tool_loop_llmCalls)

lemma callLLM_llmCalls:
  "callLLM w messages s = (r, s') \<Longrightarrow>
   llmCalls s \<le> llmCalls s' \<and> (\<forall>x. r = Inr x \<longrightarrow> llmCalls s' = Suc (llmCalls s))"
  unfolding callLLM_def
  by (auto split: sum.splits prod.splits if_splits dest!: fetch_llmCalls)

text \<open>A pass appends at most one assistant message, and only after a completion request.\<close>

lemma push_tool_results_assistants:
  "push_tool_results w rs messages = (r, messages') \<Longrightarrow>
   assistant_messages messages' = assistant_messages messages"
proof (induction rs arbitrary: messages)
  case Nil
  then show ?case by simp
next
  case (Cons x rs)
  show ?case
  proof (cases "JSON_stringify w (tr_result x)")
    case (Inl e)
    with Cons.prems show ?thesis by simp
  next
    case (Inr shown)
    with Cons.prems have
      "push_tool_results w rs (messages @ [tool_message shown (tr_tool_call_id x)]) = (r, messages')"
      by simp
    from Cons.IH [OF this] show ?thesis
      by (simp add: assistant_messages_def tool_message_def)
  qed
qed

lemma assistant_messages_append:
  "assistant_messages (xs @ ys) = assistant_messages xs @ assistant_messages ys"
  by (simp add: assistant_messages_def)

lemma iteration_count:
  assumes "agentLoop_iteration fuel w messages s = (it, messages', s')"
  shows "length (assistant_messages messages') + llmCalls s
           \<le> length (assistant_messages messages) + llmCalls s'"
proof -
  obtain r1 s1 where c1: "checkPauseState fuel w s = (r1, s1)"
    by (cases "checkPauseState fuel w s")
  note n1 = checkPauseState_llmCalls [OF c1]
  show ?thesis
  proof (cases r1)
    case (Threw e)
    with assms c1 n1 show ?thesis by (simp add: agentLoop_iteration_def)
  next
    case Pending
    with assms c1 n1 show ?thesis by (simp add: agentLoop_iteration_def)
  next
    case (Returned u1)
    obtain r2 s2 where llm: "callLLM w messages s1 = (r2, s2)"
      by (cases "callLLM w messages s1")
    note n2 = callLLM_llmCalls [OF llm]
    show ?thesis
    proof (cases r2)
      case (Inl e)
      with assms c1 Returned llm n1 n2 show ?thesis
        by (simp add: agentLoop_iteration_def)
    next
      case (Inr reply)
      obtain out tcs where reply: "reply = (out, tcs)"
        by (cases reply)
      from n2 Inr n1 have calls2: "llmCalls s2 = Suc (llmCalls s)"
        by simp
      obtain r3 s3 where c2: "checkPauseState fuel w s2 = (r3, s3)"
        by (cases "checkPauseState fuel w s2")
      note n3 = checkPauseState_llmCalls [OF c2]
      show ?thesis
      proof (cases r3)
        case (Threw e)
        with assms c1 Returned llm Inr reply c2 n3 calls2 show ?thesis
          by (simp add: agentLoop_iteration_def)
      next
        case Pending
        with assms c1 Returned llm Inr reply c2 n3 calls2 show ?thesis
          by (simp add: agentLoop_iteration_def)
      next
        case r3: (Returned u2)
        define s4 where "s4 = (if trim out \<noteq> [] then addMessage ''agent'' out s3 else s3)"
        have n4: "llmCalls s4 = Suc (llmCalls s)"
          using n3 calls2 by (simp add: s4_def addMessage_def)
        show ?thesis
        proof (cases "tcs = []")
          case True
          with assms c1 Returned llm Inr reply c2 r3 n4 show ?thesis
            by (simp add: agentLoop_iteration_def s4_def Let_def)
        next
          case False
          obtain r5 s5 where c3: "checkPauseState fuel w s4 = (r5, s5)"
            by (cases "checkPauseState fuel w s4")
          note n5 = checkPauseState_llmCalls [OF c3]
          show ?thesis
          proof (cases r5)
            case (Threw e)
            with assms c1 Returned llm Inr reply c2 r3 False c3 n5 n4 show ?thesis
              by (simp add: agentLoop_iteration_def s4_def Let_def)
          next
            case Pending
            with assms c1 Returned llm Inr reply c2 r3 False c3 n5 n4 show ?thesis
              by (simp add: agentLoop_iteration_def s4_def Let_def)
          next
            case r5: (Returned u3)
            obtain r6 s6 where h: "handleToolCalls fuel w tcs s5 = (r6, s6)"
              by (cases "handleToolCalls fuel w tcs s5")
            note n6 = handleToolCalls_llmCalls [OF h]
            show ?thesis
            proof (cases r6)
              case (Threw e)
              with assms c1 Returned llm Inr reply c2 r3 False c3 r5 h n6 n5 n4 show ?thesis
                by (simp add: agentLoop_iteration_def s4_def Let_def)
            next
              case Pending
              with assms c1 Returned llm Inr reply c2 r3 False c3 r5 h n6 n5 n4 show ?thesis
                by (simp add: agentLoop_iteration_def s4_def Let_def)
            next
              case r6: (Returned rs)
              obtain r7 ms where p: "push_tool_results w rs (messages @ [assistant_message out tcs]) = (r7, ms)"
                by (cases "push_tool_results w rs (messages @ [assistant_message out tcs])")
              from assms c1 Returned llm Inr reply c2 r3 False c3 r5 h r6 p
              have out: "messages' = ms" "s' = s6"
                by (auto simp: agentLoop_iteration_def s4_def Let_def split: option.splits)
              from push_tool_results_assistants [OF p]
              have "length (assistant_messages ms) = Suc (length (assistant_messages messages))"
                by (simp add: assistant_messages_append)
                   (simp add: assistant_messages_def assistant_message_def)
              with out n6 n5 n4 show ?thesis by simp
            qed
          qed
        qed
      qed
    qed
  qed
qed

lemma agentLoop_count:
  "length (assistant_messages (conversation (agentLoop fuel w messages s))) + llmCalls s
     \<le> length (assistant_messages messages) + llmCalls (snd (snd (agentLoop fuel w messages s)))"
proof (induction fuel arbitrary: messages s)
  case 0
  then show ?case by (simp add: conversation_def)
next
  case (Suc fuel)
  obtain it messages' s' where it: "agentLoop_iteration (Suc fuel) w messages s = (it, messages', s')"
    using prod_cases3 by blast
  note n = iteration_count [OF it]
  show ?case
  proof (cases it)
    case (Finished r)
    with it n show ?thesis by (simp add: conversation_def)
  next
    case Continue
    with it have "agentLoop (Suc fuel) w messages s = agentLoop fuel w messages' s'"
      by simp
    with Suc.IH [of messages' s'] n show ?thesis
      by simp
  qed
qed

section \<open>The conversation invariant\<close>

lemma rounds_ok_any:
  "rounds_ok [] ms \<Longrightarrow> rounds_ok ids ms"
  by (cases ms) (auto split: role.splits option.splits)

lemma rounds_ok_append:
  "rounds_ok ids xs \<Longrightarrow> rounds_ok [] ys \<Longrightarrow> rounds_ok ids (xs @ ys)"
  by (induction xs arbitrary: ids) (auto simp: rounds_ok_any split: role.splits option.splits)

lemma rounds_ok_tools:
  "\<forall>m\<in>set tms. role m = Tool \<and> tool_call_id m \<in> Some ` set ids \<Longrightarrow> rounds_ok ids tms"
  by (induction tms) (auto split: option.splits)

lemma rounds_ok_round:
  "\<forall>m\<in>set tms. role m = Tool \<and> tool_call_id m \<in> Some ` tc_id ` set tcs \<Longrightarrow>
   rounds_ok [] (assistant_message out tcs # tms)"
  by (simp add: assistant_message_def rounds_ok_tools)

lemma iteration_shape:
  assumes "agentLoop_iteration fuel w messages s = (it, messages', s')"
  shows "\<exists>block. messages' = messages @ block \<and> rounds_ok [] block"
proof -
  from iteration_cases [OF assms] consider "messages' = messages"
    | out tcs rs r s5 s6 where
        "handleToolCalls fuel w tcs s5 = (Returned rs, s6)"
        "push_tool_results w rs (messages @ [assistant_message out tcs]) = (r, messages')"
    by metis
  then show ?thesis
  proof cases
    case 1
    then have "messages' = messages @ [] \<and> rounds_ok [] []" by simp
    then show ?thesis ..
  next
    case 2
    from push_tool_results_shape [OF 2(2)] obtain tms where
      m: "messages' = (messages @ [assistant_message out tcs]) @ tms"
      and t: "\<forall>m\<in>set tms. role m = Tool \<and> tool_call_id m \<in> Some ` tr_tool_call_id ` set rs"
      by metis
    from handleToolCalls_ids [OF 2(1)] t have
      "\<forall>m\<in>set tms. role m = Tool \<and> tool_call_id m \<in> Some ` tc_id ` set tcs"
      by fastforce
    then have "rounds_ok [] (assistant_message out tcs # tms)"
      by (rule rounds_ok_round)
    moreover from m have "messages' = messages @ (assistant_message out tcs # tms)"
      by simp
    ultimately show ?thesis by metis
  qed
qed

lemma agentLoop_rounds:
  "\<exists>rest. conversation (agentLoop fuel w messages s) = messages @ rest \<and> rounds_ok [] rest"
proof (induction fuel arbitrary: messages s)
  case 0
  have "conversation (agentLoop 0 w messages s) = messages @ [] \<and> rounds_ok [] []"
    by (simp add: conversation_def)
  then show ?case ..
next
  case (Suc fuel)
  obtain it messages' s' where it: "agentLoop_iteration (Suc fuel) w messages s = (it, messages', s')"
    using prod_cases3 by blast
  from iteration_shape [OF it] obtain block where
    m: "messages' = messages @ block" and b: "rounds_ok [] block"
    by metis
  show ?case
  proof (cases it)
    case (Finished r)
    with it m have "conversation (agentLoop (Suc fuel) w messages s) = messages @ block"
      by (simp add: conversation_def)
    with b show ?thesis by metis
  next
    case Continue
    from Suc.IH [of messages' s'] obtain rest where
      r: "conversation (agentLoop fuel w messages' s') = messages' @ rest" and ok: "rounds_ok [] rest"
      by metis
    from b ok have "rounds_ok [] (block @ rest)"
      by (rule rounds_ok_append)
    moreover from Continue it r m have
      "conversation (agentLoop (Suc fuel) w messages s) = messages @ block @ rest"
      by (simp add: conversation_def)
    ultimately show ?thesis by metis
  qed
qed

lemma rounds_ok_refs:
  "rounds_ok ids ms \<Longrightarrow> set ids \<subseteq> set seen \<Longrightarrow> tool_refs_ok seen ms"
proof (induction ms arbitrary: ids seen)
  case Nil
  then show ?case by simp
next
  case (Cons m ms)
  show ?case
  proof (cases "role m")
    case Tool
    with Cons.prems obtain i where p: "tool_call_id m = Some i" "i \<in> set ids" "rounds_ok ids ms"
      by (auto split: option.splits)
    with Cons.prems have "tool_refs_ok seen ms"
      by (intro Cons.IH [of ids seen]) auto
    with Tool p Cons.prems show ?thesis by auto
  next
    case Assistant
    with Cons.prems obtain tcs where t: "tool_calls m = Some tcs" "rounds_ok (map tc_id tcs) ms"
      by (auto split: option.splits)
    then have "tool_refs_ok (seen @ map tc_id tcs) ms"
      by (intro Cons.IH [of "map tc_id tcs"]) auto
    with Assistant t show ?thesis by simp
  next
    case System
    with Cons.prems show ?thesis by simp
  next
    case User
    with Cons.prems show ?thesis by simp
  qed
qed

text \<open>
  C9. At every observation of a turn (the loop has returned, has thrown or is still
  running), the conversation extends the one the loop was started with, nothing of which
  is changed or removed; for a turn started by \<open>agentLoop\<close> it begins with the system
  message and the user's message; what follows is made of assistant messages with tool
  calls, each appended before the tool messages that name its calls: every tool message
  names the id of a call of the last assistant message before it; and the loop has
  appended at most one assistant message per completion request.
\<close>

theorem conversation_invariant:
  "prefix messages (conversation (agentLoop fuel w messages s)) \<and>
   take 2 (conversation (agentLoop fuel w (initial_messages userInput) s)) = initial_messages userInput \<and>
   role (conversation (agentLoop fuel w (initial_messages userInput) s) ! 0) = System \<and>
   rounds_ok [] (drop 2 (conversation (agentLoop fuel w (initial_messages userInput) s))) \<and>
   tool_refs_ok [] (conversation (agentLoop fuel w (initial_messages userInput) s)) \<and>
   length (assistant_messages (conversation (agentLoop fuel w messages s))) + llmCalls s
     \<le> length (assistant_messages messages) + llmCalls (snd (snd (agentLoop fuel w messages s)))"
proof -
  from agentLoop_rounds [of fuel w messages s] have
    p: "prefix messages (conversation (agentLoop fuel w messages s))"
    by (metis prefixI)
  from agentLoop_rounds [of fuel w "initial_messages userInput" s] obtain rest where
    r: "conversation (agentLoop fuel w (initial_messages userInput) s) = initial_messages userInput @ rest"
    and ok: "rounds_ok [] rest"
    by metis
  from ok have "tool_refs_ok [] rest"
    by (rule rounds_ok_refs) simp
  then have "tool_refs_ok [] (initial_messages userInput @ rest)"
    by (simp add: initial_messages_def)
  with p r ok agentLoop_count [of fuel w messages s] show ?thesis
    by (simp add: initial_messages_def)
qed

section \<open>The end of a turn\<close>

text \<open>
  C4, as stated, fails when the model's text is empty or blank: the loop shows the text
  only \<open>if (output.trim())\<close>, so a response with neither text nor tool calls ends the
  turn after one request with no assistant message at all.
\<close>

theorem blank_response_no_assistant_message:
  "agentLoop (Suc 0) blank_world (initial_messages ''hello'') running_agent =
     (Returned (), initial_messages ''hello'', running_agent\<lparr>clock := 1, llmCalls := 1\<rparr>) \<and>
   ui (running_agent\<lparr>clock := 1, llmCalls := 1\<rparr>) = []"
  by (simp add: agentLoop_iteration_def checkPauseState_def signal_aborted_def callLLM_def
      getHeaders_def fetch_def await_tick_def blank_world_def quiet_world_def
      completion_reply_def ok_def first_message_def running_agent_def new_agent_def
      trim_def white_space_def strip.simps Let_def)

lemma checkPauseState_Returned:
  "checkPauseState fuel w s = (Returned u, s') \<Longrightarrow> \<not> signal_aborted s'"
  by (auto simp: checkPauseState_def split: if_splits prod.splits outcome.splits)

text \<open>
  The white space that \<open>trim\<close> strips is not only that of ASCII: a reply that is one
  no-break space is blank.
\<close>

lemma trim_no_break_space: "trim [CHR 0xC2, CHR 0xA0] = []"
  by (simp add: trim_def white_space_def strip.simps)

text \<open>
  C4, amended. If the first checkpoint lets the turn through, the first completion
  request is not aborted, the model's first response is well formed and has no tool
  calls, and the checkpoint after the request lets the turn through (the turn is not
  cancelled, and is resumed if it was paused), then the loop returns after exactly one
  completion request; the conversation is unchanged (no assistant and no tool message is
  appended to it), and the page shows the model's text as one assistant message when the
  text is not blank, and nothing when it is blank.
\<close>

theorem no_tool_calls_one_round_trip:
  assumes "checkPauseState (Suc fuel) w s = (Returned (), s1)"
    and "getHeaders s1 = Inr headers"
    and "s2 = await_tick w (s1\<lparr>llmCalls := Suc (llmCalls s1)\<rparr>)"
    and "\<not> signal_aborted s2"
    and "llm_api w messages = Response r" and "ok r" and "body r = Inr data"
    and "first_message data = Inr m"
    and "msg_tool_calls m = None \<or> msg_tool_calls m = Some []"
    and "checkPauseState (Suc fuel) w s2 = (Returned (), s3)"
  shows "llmCalls s3 = Suc (llmCalls s) \<and>
         agentLoop (Suc fuel) w messages s =
           (Returned (), messages,
            (let out = (case msg_content m of None \<Rightarrow> [] | Some c \<Rightarrow> c)
             in if trim out = [] then s3 else addMessage ''agent'' out s3))"
proof -
  let ?out = "case msg_content m of None \<Rightarrow> [] | Some c \<Rightarrow> c"
  from assms(1) have "\<not> signal_aborted s1"
    by (rule checkPauseState_Returned)
  then have "\<not> signal_aborted (s1\<lparr>llmCalls := Suc (llmCalls s1)\<rparr>)"
    by (simp add: signal_aborted_def)
  with assms have llm: "callLLM w messages s1 = (Inr (?out, []), s2)"
    by (auto simp: callLLM_def fetch_def Let_def)
  have "llmCalls s1 = llmCalls s"
    using assms(1) by (rule checkPauseState_llmCalls)
  moreover have "llmCalls s2 = Suc (llmCalls s1)"
    using assms(3) by (simp add: await_tick_llmCalls)
  moreover have "llmCalls s3 = llmCalls s2"
    using assms(10) by (rule checkPauseState_llmCalls)
  ultimately have "llmCalls s3 = Suc (llmCalls s)"
    by simp
  with assms(1) llm assms(10) show ?thesis
    by (simp add: agentLoop_iteration_def Let_def)
qed

text \<open>
  The witness is a turn that the user pauses while the request is in flight and resumes
  at the checkpoint that follows.
\<close>

theorem no_tool_calls_one_round_trip_witness:
  "agentLoop (Suc 0) pause_resume_world (initial_messages ''hello'') running_agent =
     (Returned (), initial_messages ''hello'',
      running_agent\<lparr>ui := [(''agent'', ''**Processing resumed...**''), (''agent'', ''Hello!'')],
                     clock := 2, llmCalls := 1\<rparr>)"
proof -
  let ?s2 = "running_agent\<lparr>isPaused := True, clock := Suc 0, llmCalls := Suc 0\<rparr>"
  let ?s3 = "running_agent\<lparr>ui := [(''agent'', ''**Processing resumed...**'')],
                            clock := Suc (Suc 0), llmCalls := Suc 0\<rparr>"
  have c1: "checkPauseState (Suc 0) pause_resume_world running_agent = (Returned (), running_agent)"
    by (simp add: checkPauseState_def signal_aborted_def running_agent_def new_agent_def)
  have hdr: "getHeaders running_agent = Inr [(''Content-Type'', ''application/json'')]"
    by (simp add: getHeaders_def running_agent_def new_agent_def)
  have s2: "?s2 = await_tick pause_resume_world (running_agent\<lparr>llmCalls := Suc (llmCalls running_agent)\<rparr>)"
    by (simp add: await_tick_def pause_resume_world_def hello_world_def quiet_world_def
        running_agent_def new_agent_def togglePause_def)
  have na: "\<not> signal_aborted ?s2"
    by (simp add: signal_aborted_def running_agent_def new_agent_def)
  have reply: "llm_api pause_resume_world (initial_messages ''hello'') =
      Response \<lparr>status = 200, statusText = ''OK'',
                body = Inr \<lparr>choices = Some [Some \<lparr>msg_content = Some ''Hello!'', msg_tool_calls = None\<rparr>]\<rparr>\<rparr>"
    by (simp add: pause_resume_world_def hello_world_def quiet_world_def completion_reply_def)
  have c2: "checkPauseState (Suc 0) pause_resume_world ?s2 = (Returned (), ?s3)"
    by (simp add: checkPauseState_def signal_aborted_def await_tick_def pause_resume_world_def
        hello_world_def quiet_world_def running_agent_def new_agent_def resumeProcessing_def
        addMessage_def)
  have tr: "trim ''Hello!'' = ''Hello!''"
    by (simp add: trim_def white_space_def strip.simps)
  from no_tool_calls_one_round_trip [OF c1 hdr s2 na reply _ _ _ _ c2,
      of "\<lparr>choices = Some [Some \<lparr>msg_content = Some ''Hello!'', msg_tool_calls = None\<rparr>]\<rparr>"
         "\<lparr>msg_content = Some ''Hello!'', msg_tool_calls = None\<rparr>"]
  show ?thesis
    by (simp add: ok_def first_message_def tr addMessage_def running_agent_def new_agent_def)
qed



end
